theory Spec2Isabelle
  imports Main
begin

section \<open>Errors\<close>

text \<open>
  The exceptions the forms of \<^verbatim>\<open>users/forms.py\<close> raise or let through.
  \<open>ValidationError message code\<close> is Django's \<^verbatim>\<open>ValidationError(message, code=code)\<close>;
  \<open>DoesNotExist\<close> and \<open>MultipleObjectsReturned\<close> are what \<^verbatim>\<open>Model.objects.get\<close>
  raises; \<open>ValueError\<close> is what \<^verbatim>\<open>ModelForm.save\<close> raises on a form with errors;
  \<open>KeyError\<close> is a subscript on a missing key of \<^verbatim>\<open>cleaned_data\<close>.

  The specification's names are: \<open>NotFound\<close> for \<open>DoesNotExist\<close>,
  \<open>InvalidCredentials\<close> for the code \<^verbatim>\<open>invalid_login\<close>, \<open>AccountDisabled\<close> for
  \<^verbatim>\<open>disabled\<close>, \<open>DuplicateRegistryId\<close> for \<^verbatim>\<open>registry_id_exists\<close> and
  \<open>EmailTaken\<close> for \<^verbatim>\<open>email_exists\<close>.
\<close>

datatype error =
    ValidationError string string
  | DoesNotExist
  | MultipleObjectsReturned
  | ValueError
  | KeyError

section \<open>The persistent store\<close>

text \<open>
  Modelled from the spec: the model classes \<^verbatim>\<open>User\<close>, \<^verbatim>\<open>Student\<close>, \<^verbatim>\<open>Teacher\<close>,
  \<^verbatim>\<open>Deptadmin\<close> (\<^verbatim>\<open>users/models.py\<close>) and \<^verbatim>\<open>Department\<close>, \<^verbatim>\<open>DepartmentStudents\<close>,
  \<^verbatim>\<open>DepartmentTeachers\<close> (\<^verbatim>\<open>mainpage/models.py\<close>) are imported by \<^verbatim>\<open>forms.py\<close> but are
  not among the sources. Their attributes are the ones \<^verbatim>\<open>forms.py\<close> reads and writes,
  with the types the specification's data model gives them. An attribute that
  \<^verbatim>\<open>forms.py\<close> assigns from \<^verbatim>\<open>cleaned_data.get(...)\<close> is an option: \<^verbatim>\<open>dict.get\<close> returns
  \<^verbatim>\<open>None\<close> for a missing key. A foreign key holds the primary key of the row it
  references. Primary keys are Python integers.
\<close>

record User =
  u_email :: "string option"
  u_password :: string
  is_student :: bool
  is_teacher :: bool
  is_deptadmin :: bool
  is_staff :: bool
  is_accepted :: bool
  is_active :: bool

record Student =
  s_user :: int
  s_registry_id :: "string option"
  s_first_name :: "string option"
  s_last_name :: "string option"
  s_admission_year :: "int option"

record Teacher =
  t_user :: int
  t_first_name :: "string option"
  t_last_name :: "string option"
  t_rank :: "string option"

record Deptadmin =
  da_user :: int
  da_department :: "int option"

record Department =
  d_name :: string

record DepartmentStudents =
  ds_dept_id :: "int option"
  ds_user_id :: int

record DepartmentTeachers =
  dt_dept_id :: "int option"
  dt_user_id :: int

text \<open>
  A table is the list of its rows in insertion order, each row paired with its primary
  key, and the next value of the key's sequence (Django's \<^verbatim>\<open>AutoField\<close>).
\<close>

record 'r table =
  rows :: "(int \<times> 'r) list"
  next_pk :: int

abbreviation pk :: "int \<times> 'r \<Rightarrow> int" where
  "pk \<equiv> fst"

abbreviation obj :: "int \<times> 'r \<Rightarrow> 'r" where
  "obj \<equiv> snd"

record store =
  users :: "User table"
  students :: "Student table"
  teachers :: "Teacher table"
  deptadmins :: "Deptadmin table"
  departments :: "Department table"
  dept_students :: "DepartmentStudents table"
  dept_teachers :: "DepartmentTeachers table"

subsection \<open>The ORM calls that the forms make\<close>

text \<open>\<^verbatim>\<open>Model.objects.filter(...)\<close>: the matching rows, in table order.\<close>

definition objects_filter :: "(int \<times> 'r \<Rightarrow> bool) \<Rightarrow> 'r table \<Rightarrow> (int \<times> 'r) list" where
  "objects_filter P t = filter P (rows t)"

text \<open>
  \<^verbatim>\<open>Model.objects.get(...)\<close>: the one matching row; \<^verbatim>\<open>DoesNotExist\<close> when there is
  none, \<^verbatim>\<open>MultipleObjectsReturned\<close> when there are several.
\<close>

definition objects_get :: "(int \<times> 'r \<Rightarrow> bool) \<Rightarrow> 'r table \<Rightarrow> error + (int \<times> 'r)" where
  "objects_get P t =
     (case objects_filter P t of
        [] \<Rightarrow> Inl DoesNotExist
      | [r] \<Rightarrow> Inr r
      | _ # _ # _ \<Rightarrow> Inl MultipleObjectsReturned)"

text \<open>
  \<^verbatim>\<open>Model.objects.create(...)\<close>, and \<^verbatim>\<open>instance.save()\<close> on an instance that has no
  primary key yet: the row is appended under the next key of the sequence.
\<close>

definition objects_create :: "'r \<Rightarrow> 'r table \<Rightarrow> (int \<times> 'r) \<times> 'r table" where
  "objects_create v t =
     ((next_pk t, v), t\<lparr>rows := rows t @ [(next_pk t, v)], next_pk := next_pk t + 1\<rparr>)"

text \<open>
  \<^verbatim>\<open>instance.save()\<close> on an instance with a primary key: an \<^verbatim>\<open>UPDATE\<close> of the rows
  under that key and, when it updated nothing, an \<^verbatim>\<open>INSERT\<close>.
\<close>

definition Model_save :: "int \<times> 'r \<Rightarrow> 'r table \<Rightarrow> 'r table" where
  "Model_save r t =
     (if pk r \<in> set (map pk (rows t))
      then t\<lparr>rows := map (\<lambda>x. if pk x = pk r then r else x) (rows t)\<rparr>
      else t\<lparr>rows := rows t @ [r]\<rparr>)"

text \<open>\<^verbatim>\<open>queryset.delete()\<close> on one table: the matching rows are removed.\<close>

definition queryset_delete :: "(int \<times> 'r \<Rightarrow> bool) \<Rightarrow> 'r table \<Rightarrow> 'r table" where
  "queryset_delete P t = t\<lparr>rows := filter (\<lambda>r. \<not> P r) (rows t)\<rparr>"

subsection \<open>Operations on the store\<close>

text \<open>
  A method that talks to the database is a function from the store to its outcome (an
  exception or a value) and the store it leaves. An exception ends the method; what was
  written before it stays written, unless the method is wrapped in
  \<^verbatim>\<open>@transaction.atomic\<close>, which restores the store the method started from.
\<close>

type_synonym 'a db = "store \<Rightarrow> (error + 'a) \<times> store"

definition return_db :: "'a \<Rightarrow> 'a db" where
  "return_db x = (\<lambda>st. (Inr x, st))"

definition raise_db :: "error \<Rightarrow> 'a db" where
  "raise_db e = (\<lambda>st. (Inl e, st))"

definition bind_db :: "'a db \<Rightarrow> ('a \<Rightarrow> 'b db) \<Rightarrow> 'b db" where
  "bind_db m f =
     (\<lambda>st. case m st of (Inl e, st') \<Rightarrow> (Inl e, st') | (Inr x, st') \<Rightarrow> f x st')"

definition query :: "(store \<Rightarrow> error + 'a) \<Rightarrow> 'a db" where
  "query q = (\<lambda>st. (q st, st))"

definition exec :: "(store \<Rightarrow> store) \<Rightarrow> unit db" where
  "exec w = (\<lambda>st. (Inr (), w st))"

definition atomic :: "'a db \<Rightarrow> 'a db" where
  "atomic m =
     (\<lambda>st. case m st of (Inl e, _) \<Rightarrow> (Inl e, st) | (Inr x, st') \<Rightarrow> (Inr x, st'))"

section \<open>Forms\<close>

text \<open>
  \<^verbatim>\<open>cleaned_data\<close> and the submitted data are dictionaries from field names to values.
  Here they are records with one optional component per field name that a form of
  \<^verbatim>\<open>forms.py\<close> declares; \<open>None\<close> is a missing key, so a component read is
  \<^verbatim>\<open>dict.get(name)\<close>. A submitted value is taken after the field's conversion to
  Python (an integer for an \<^verbatim>\<open>IntegerField\<close>, the primary key of the chosen department
  for a \<^verbatim>\<open>DepartmentChoiceField\<close>).
\<close>

record field_values =
  email :: "string option"
  password :: "string option"
  user_id :: "int option"
  department :: "int option"
  first_name :: "string option"
  last_name :: "string option"
  registry_id :: "string option"
  admission_year :: "int option"
  rank :: "string option"
  password1 :: "string option"
  password2 :: "string option"

definition no_values :: field_values where
  "no_values =
     \<lparr>email = None, password = None, user_id = None, department = None,
      first_name = None, last_name = None, registry_id = None, admission_year = None,
      rank = None, password1 = None, password2 = None\<rparr>"

subsection \<open>What the forms take from outside this module\<close>

text \<open>
  \<^verbatim>\<open>forms.py\<close> uses constants of the absent model classes, the clock and Django's
  password hasher and email validator. They are parameters of the model:
  \<^item> \<open>EMAIL_LENGTH\<close> is \<^verbatim>\<open>User.EMAIL_LENGTH\<close>;
  \<^item> \<open>TeacherRanks_choices\<close> are the values of \<^verbatim>\<open>Teacher.TeacherRanks.choices\<close>;
  \<^item> \<open>import_year\<close> is the value of \<^verbatim>\<open>datetime.datetime.now().year\<close> in the class
    bodies of \<^verbatim>\<open>StudentSignupForm\<close> and \<^verbatim>\<open>StudentUpdateForm\<close>: Python evaluates a
    class body once, when the module is imported, so it is the calendar year in which
    the process imported \<^verbatim>\<open>users/forms.py\<close>;
  \<^item> \<open>validate_email\<close> is Django's \<^verbatim>\<open>EmailValidator\<close>;
  \<^item> \<open>make_password\<close> and \<open>check_password\<close> are Django's password hasher
    (\<^verbatim>\<open>set_password\<close>, \<^verbatim>\<open>check_password\<close>);
  \<^item> \<open>is_active_default\<close> is the default of \<^verbatim>\<open>User.is_active\<close>.
\<close>

record env =
  EMAIL_LENGTH :: nat
  TeacherRanks_choices :: "string list"
  import_year :: int
  validate_email :: "string \<Rightarrow> bool"
  make_password :: "string \<Rightarrow> string"
  check_password :: "string \<Rightarrow> string \<Rightarrow> bool"
  is_active_default :: bool

subsection \<open>Field classes\<close>

text \<open>
  \<^verbatim>\<open>Field.clean(value)\<close> for the field classes that \<^verbatim>\<open>forms.py\<close> instantiates, with the
  arguments it passes (\<^verbatim>\<open>required\<close> is true for every field of the module, by default
  or explicitly). The result is the cleaned value or the list of the field's errors.
  The message of an error that Django raises is Django's default message, before its
  parameters are filled in.
\<close>

definition required_error :: error where
  "required_error = ValidationError ''This field is required.'' ''required''"

definition max_length_error :: error where
  "max_length_error =
     ValidationError ''Ensure this value has at most %(limit_value)d characters (it has %(show_value)d).''
       ''max_length''"

definition min_value_error :: error where
  "min_value_error =
     ValidationError ''Ensure this value is greater than or equal to %(limit_value)s.'' ''min_value''"

definition max_value_error :: error where
  "max_value_error =
     ValidationError ''Ensure this value is less than or equal to %(limit_value)s.'' ''max_value''"

definition invalid_email_error :: error where
  "invalid_email_error = ValidationError ''Enter a valid email address.'' ''invalid''"

definition invalid_choice_error :: error where
  "invalid_choice_error =
     ValidationError ''Select a valid choice. That choice is not one of the available choices.''
       ''invalid_choice''"

definition CharField_clean :: "nat option \<Rightarrow> string option \<Rightarrow> error list + string" where
  "CharField_clean max_length v =
     (case v of
        None \<Rightarrow> Inl [required_error]
      | Some s \<Rightarrow>
          if s = [] then Inl [required_error]
          else if (case max_length of None \<Rightarrow> False | Some n \<Rightarrow> n < length s)
          then Inl [max_length_error]
          else Inr s)"

definition EmailField_clean :: "env \<Rightarrow> nat option \<Rightarrow> string option \<Rightarrow> error list + string" where
  "EmailField_clean env max_length v =
     (case v of
        None \<Rightarrow> Inl [required_error]
      | Some s \<Rightarrow>
          if s = [] then Inl [required_error]
          else
            (let errs =
               (if validate_email env s then [] else [invalid_email_error]) @
               (if (case max_length of None \<Rightarrow> False | Some n \<Rightarrow> n < length s)
                then [max_length_error] else [])
             in if errs = [] then Inr s else Inl errs))"

text \<open>
  \<^verbatim>\<open>IntegerField(min_value=lo, max_value=hi)\<close>: Django appends the validator of the
  maximum first, then that of the minimum, and reports every validator that fails.
\<close>

definition IntegerField_clean :: "int option \<Rightarrow> int option \<Rightarrow> int option \<Rightarrow> error list + int" where
  "IntegerField_clean min_value max_value v =
     (case v of
        None \<Rightarrow> Inl [required_error]
      | Some n \<Rightarrow>
          (let errs =
             (if (case max_value of None \<Rightarrow> False | Some hi \<Rightarrow> hi < n)
              then [max_value_error] else []) @
             (if (case min_value of None \<Rightarrow> False | Some lo \<Rightarrow> n < lo)
              then [min_value_error] else [])
           in if errs = [] then Inr n else Inl errs))"

text \<open>
  \<^verbatim>\<open>DepartmentChoiceField(queryset=Department.objects.all(), required=True)\<close>: the
  queryset is evaluated against the store whenever a value is cleaned.
\<close>

definition DepartmentChoiceField_clean :: "store \<Rightarrow> int option \<Rightarrow> error list + int" where
  "DepartmentChoiceField_clean st v =
     (case v of
        None \<Rightarrow> Inl [required_error]
      | Some d \<Rightarrow>
          if objects_filter (\<lambda>r. pk r = d) (departments st) = []
          then Inl [invalid_choice_error]
          else Inr d)"

definition ChoiceField_clean :: "string list \<Rightarrow> string option \<Rightarrow> error list + string" where
  "ChoiceField_clean choices v =
     (case v of
        None \<Rightarrow> Inl [required_error]
      | Some s \<Rightarrow>
          if s = [] then Inl [required_error]
          else if s \<in> set choices then Inr s
          else Inl [invalid_choice_error])"

text \<open>
  The field \<^verbatim>\<open>admission_year\<close> of \<^verbatim>\<open>StudentSignupForm\<close> and of \<^verbatim>\<open>StudentUpdateForm\<close>:
  \<^verbatim>\<open>forms.IntegerField(min_value=2000, max_value=datetime.datetime.now().year, required=True)\<close>.
  The maximum was computed when the class body ran.
\<close>

definition admission_year_clean :: "env \<Rightarrow> int option \<Rightarrow> error list + int" where
  "admission_year_clean env v = IntegerField_clean (Some 2000) (Some (import_year env)) v"

subsection \<open>The form object\<close>

text \<open>
  A bound form holds the submitted \<open>data\<close>, the \<open>cleaned_data\<close> that validation
  builds, the \<open>errors\<close> it collects (each under its field's name, or under
  \<^verbatim>\<open>__all__\<close> when \<^verbatim>\<open>clean()\<close> raised it), and for \<^verbatim>\<open>SigninForm\<close> the
  \<open>user_cache\<close>.
\<close>

record form =
  data :: field_values
  cleaned_data :: field_values
  errors :: "(string \<times> error) list"
  user_cache :: "(int \<times> User) option"

definition bound_form :: "field_values \<Rightarrow> form" where
  "bound_form d = \<lparr>data = d, cleaned_data = no_values, errors = [], user_cache = None\<rparr>"

definition is_valid :: "form \<Rightarrow> bool" where
  "is_valid self = (errors self = [])"

text \<open>
  One step of \<^verbatim>\<open>_clean_fields\<close>: the cleaned value goes into \<^verbatim>\<open>cleaned_data\<close>, or the
  field's errors go into \<^verbatim>\<open>errors\<close>.
\<close>

definition clean_field ::
  "string \<Rightarrow> error list + 'a \<Rightarrow> ('a \<Rightarrow> field_values \<Rightarrow> field_values) \<Rightarrow> form \<Rightarrow> form" where
  "clean_field name r put self =
     (case r of
        Inl errs \<Rightarrow> self\<lparr>errors := errors self @ map (Pair name) errs\<rparr>
      | Inr v \<Rightarrow> self\<lparr>cleaned_data := put v (cleaned_data self)\<rparr>)"

text \<open>
  \<^verbatim>\<open>_clean_form\<close>: calls \<^verbatim>\<open>clean()\<close>; a \<^verbatim>\<open>ValidationError\<close> it raises becomes a
  non-field error, a value it returns becomes \<^verbatim>\<open>cleaned_data\<close>.
\<close>

definition clean_form :: "error + field_values \<Rightarrow> form \<Rightarrow> form" where
  "clean_form r self =
     (case r of
        Inl e \<Rightarrow> self\<lparr>errors := errors self @ [(''__all__'', e)]\<rparr>
      | Inr cd \<Rightarrow> self\<lparr>cleaned_data := cd\<rparr>)"

subsection \<open>\<^verbatim>\<open>SigninForm\<close>\<close>

definition SigninForm_invalid_login :: error where
  "SigninForm_invalid_login = ValidationError ''Incorrect email or password.'' ''invalid_login''"

definition SigninForm_disabled :: error where
  "SigninForm_disabled =
     ValidationError ''Please wait for your account to be enabled.'' ''disabled''"

definition SigninForm_clean_fields :: "env \<Rightarrow> form \<Rightarrow> form" where
  "SigninForm_clean_fields env self =
     (let self = clean_field ''email''
                   (EmailField_clean env (Some (EMAIL_LENGTH env)) (email (data self)))
                   (\<lambda>v cd. cd\<lparr>email := Some v\<rparr>) self;
          self = clean_field ''password''
                   (CharField_clean None (password (data self)))
                   (\<lambda>v cd. cd\<lparr>password := Some v\<rparr>) self
      in self)"

text \<open>
  Modelled from the spec: \<^verbatim>\<open>django.contrib.auth.authenticate\<close> and the authentication
  backend the project configures are not among the sources. Following the
  specification (section 4.1) it looks the User up by email and verifies the password
  against the stored hash; it returns the user, or \<^verbatim>\<open>None\<close> when the lookup fails or
  the hash does not match. It writes nothing. Further checks that a backend may make
  (Django's default backend also returns \<^verbatim>\<open>None\<close> for a user whose \<open>is_active\<close> is
  false) are not in the specification and are left out.
\<close>

definition authenticate :: "env \<Rightarrow> string \<Rightarrow> string \<Rightarrow> store \<Rightarrow> (int \<times> User) option" where
  "authenticate env username passwd st =
     (case objects_get (\<lambda>r. u_email (obj r) = Some username) (users st) of
        Inl _ \<Rightarrow> None
      | Inr user \<Rightarrow>
          if check_password env passwd (u_password (obj user)) then Some user else None)"

definition SigninForm_confirm_login_allowed :: "int \<times> User \<Rightarrow> error + unit" where
  "SigninForm_confirm_login_allowed user =
     (if \<not> is_accepted (obj user) then Inl SigninForm_disabled else Inr ())"

text \<open>
  \<^verbatim>\<open>SigninForm.clean\<close>. The result is the exception raised or the \<^verbatim>\<open>cleaned_data\<close>
  returned, the form as the method leaves it (it assigns \<^verbatim>\<open>self.user_cache\<close>), and the
  store. The test \<^verbatim>\<open>if email and password\<close> fails on a missing key and on an empty
  string.
\<close>

definition SigninForm_clean ::
  "env \<Rightarrow> form \<Rightarrow> store \<Rightarrow> (error + field_values) \<times> form \<times> store" where
  "SigninForm_clean env self st =
     (case (email (cleaned_data self), password (cleaned_data self)) of
        (Some e, Some p) \<Rightarrow>
          if e \<noteq> [] \<and> p \<noteq> [] then
            (let self = self\<lparr>user_cache := authenticate env e p st\<rparr> in
             case user_cache self of
               None \<Rightarrow> (Inl SigninForm_invalid_login, self, st)
             | Some user \<Rightarrow>
                 (case SigninForm_confirm_login_allowed user of
                    Inl err \<Rightarrow> (Inl err, self, st)
                  | Inr _ \<Rightarrow> (Inr (cleaned_data self), self, st)))
          else (Inr (cleaned_data self), self, st)
      | _ \<Rightarrow> (Inr (cleaned_data self), self, st))"


text \<open>
  \<^verbatim>\<open>full_clean\<close> of a \<^verbatim>\<open>SigninForm\<close> bound to the submitted data: the fields, then
  \<^verbatim>\<open>clean()\<close>.
\<close>

definition SigninForm_full_clean :: "env \<Rightarrow> field_values \<Rightarrow> store \<Rightarrow> form \<times> store" where
  "SigninForm_full_clean env d st =
     (let self = SigninForm_clean_fields env (bound_form d) in
      case SigninForm_clean env self st of
        (r, self', st') \<Rightarrow> (clean_form r self', st'))"

subsection \<open>\<^verbatim>\<open>UserActionForm\<close>\<close>

definition UserActionForm_clean_fields :: "form \<Rightarrow> form" where
  "UserActionForm_clean_fields self =
     clean_field ''user_id''
       (IntegerField_clean None None (user_id (data self)))
       (\<lambda>v cd. cd\<lparr>user_id := Some v\<rparr>) self"

definition UserActionForm_full_clean :: "field_values \<Rightarrow> form" where
  "UserActionForm_full_clean d =
     (let self = UserActionForm_clean_fields (bound_form d) in
      clean_form (Inr (cleaned_data self)) self)"

definition UserActionForm_accept :: "form \<Rightarrow> unit db" where
  "UserActionForm_accept self =
     bind_db (query (\<lambda>st. objects_get (\<lambda>r. Some (pk r) = user_id (cleaned_data self)) (users st)))
       (\<lambda>user.
     exec (\<lambda>st. st\<lparr>users := Model_save (pk user, (obj user)\<lparr>is_accepted := True\<rparr>) (users st)\<rparr>))"

text \<open>
  Modelled from the spec: deleting a User cascades to its role profile and its membership
  rows (the \<^verbatim>\<open>on_delete\<close> rules are declared in the model classes, which are not among
  the sources).
\<close>

definition UserActionForm_delete :: "form \<Rightarrow> unit db" where
  "UserActionForm_delete self =
     exec (\<lambda>st.
       let doomed = map pk (objects_filter (\<lambda>r. Some (pk r) = user_id (cleaned_data self)) (users st))
       in st\<lparr>users := queryset_delete (\<lambda>r. pk r \<in> set doomed) (users st),
             students := queryset_delete (\<lambda>r. s_user (obj r) \<in> set doomed) (students st),
             teachers := queryset_delete (\<lambda>r. t_user (obj r) \<in> set doomed) (teachers st),
             deptadmins := queryset_delete (\<lambda>r. da_user (obj r) \<in> set doomed) (deptadmins st),
             dept_students :=
               queryset_delete (\<lambda>r. ds_user_id (obj r) \<in> set doomed) (dept_students st),
             dept_teachers :=
               queryset_delete (\<lambda>r. dt_user_id (obj r) \<in> set doomed) (dept_teachers st)\<rparr>)"

definition UserActionForm_activate :: "form \<Rightarrow> unit db" where
  "UserActionForm_activate self =
     bind_db (query (\<lambda>st. objects_get (\<lambda>r. Some (pk r) = user_id (cleaned_data self)) (users st)))
       (\<lambda>user.
     exec (\<lambda>st. st\<lparr>users := Model_save (pk user, (obj user)\<lparr>is_active := True\<rparr>) (users st)\<rparr>))"

definition UserActionForm_deactivate :: "form \<Rightarrow> unit db" where
  "UserActionForm_deactivate self =
     bind_db (query (\<lambda>st. objects_get (\<lambda>r. Some (pk r) = user_id (cleaned_data self)) (users st)))
       (\<lambda>user.
     exec (\<lambda>st. st\<lparr>users := Model_save (pk user, (obj user)\<lparr>is_active := False\<rparr>) (users st)\<rparr>))"

subsection \<open>\<^verbatim>\<open>UserCreationForm\<close> and \<^verbatim>\<open>ModelForm\<close>, as the signup forms use them\<close>

text \<open>
  \<^verbatim>\<open>UserCreationForm.clean_password2\<close>: the two passwords, when both are there, must be
  equal.
\<close>

definition password_mismatch_error :: error where
  "password_mismatch_error =
     ValidationError ''The two password fields did not match.'' ''password_mismatch''"

definition UserCreationForm_clean_password2 :: "form \<Rightarrow> form" where
  "UserCreationForm_clean_password2 self =
     (case (password1 (cleaned_data self), password2 (cleaned_data self)) of
        (Some p1, Some p2) \<Rightarrow>
          if p1 \<noteq> [] \<and> p2 \<noteq> [] \<and> p1 \<noteq> p2
          then self\<lparr>errors := errors self @ [(''password2'', password_mismatch_error)],
                    cleaned_data := (cleaned_data self)\<lparr>password2 := None\<rparr>\<rparr>
          else self
      | _ \<Rightarrow> self)"

text \<open>
  Modelled from the spec: \<^verbatim>\<open>User.email\<close> is unique across all users (declared in the
  absent \<^verbatim>\<open>users/models.py\<close>). A \<^verbatim>\<open>ModelForm\<close> on \<^verbatim>\<open>User\<close> checks, after \<^verbatim>\<open>clean()\<close>,
  that a cleaned email is not the email of a stored user, and reports it on the field.
\<close>

definition unique_error :: error where
  "unique_error = ValidationError ''%(model_name)s with this %(field_label)s already exists.'' ''unique''"

definition ModelForm_post_clean :: "form \<Rightarrow> store \<Rightarrow> form" where
  "ModelForm_post_clean self st =
     (case email (cleaned_data self) of
        None \<Rightarrow> self
      | Some e \<Rightarrow>
          if objects_filter (\<lambda>r. u_email (obj r) = Some e) (users st) \<noteq> []
          then self\<lparr>errors := errors self @ [(''email'', unique_error)],
                    cleaned_data := (cleaned_data self)\<lparr>email := None\<rparr>\<rparr>
          else self)"

text \<open>
  Modelled from the spec: the defaults of the attributes of a new \<^verbatim>\<open>User\<close> are declared
  in \<^verbatim>\<open>users/models.py\<close>, which is not among the sources. \<open>is_accepted\<close> defaults to
  false (specification, section 3); a role flag is false until the signup that creates
  the user sets it; the default of \<open>is_active\<close> is a parameter. Email and password are
  assigned by the form.
\<close>

definition User_init :: "env \<Rightarrow> User" where
  "User_init env =
     \<lparr>u_email = None, u_password = [], is_student = False, is_teacher = False,
      is_deptadmin = False, is_staff = False, is_accepted = False,
      is_active = is_active_default env\<rparr>"

text \<open>
  \<^verbatim>\<open>super().save(commit=False)\<close> of a signup form, that is
  \<^verbatim>\<open>UserCreationForm.save(commit=False)\<close>: \<^verbatim>\<open>ModelForm.save\<close> raises \<^verbatim>\<open>ValueError\<close> when
  the form has errors; otherwise the result is an unsaved \<^verbatim>\<open>User\<close> instance with the
  cleaned email and the hash of \<^verbatim>\<open>cleaned_data["password1"]\<close>. Nothing is written.
\<close>

definition UserCreationForm_save_commit_False :: "env \<Rightarrow> form \<Rightarrow> error + User" where
  "UserCreationForm_save_commit_False env self =
     (if errors self \<noteq> [] then Inl ValueError
      else case password1 (cleaned_data self) of
        None \<Rightarrow> Inl KeyError
      | Some p \<Rightarrow>
          Inr ((User_init env)\<lparr>u_email := email (cleaned_data self),
                               u_password := make_password env p\<rparr>))"

subsection \<open>\<^verbatim>\<open>StudentSignupForm\<close>\<close>

definition registry_id_exists :: error where
  "registry_id_exists =
     ValidationError ''A student with this registry id already exists.'' ''registry_id_exists''"

definition email_exists :: error where
  "email_exists = ValidationError ''This email is used by another user.'' ''email_exists''"

text \<open>The fields, in the order of \<^verbatim>\<open>Meta.fields\<close>.\<close>

definition StudentSignupForm_clean_fields :: "env \<Rightarrow> form \<Rightarrow> store \<Rightarrow> form" where
  "StudentSignupForm_clean_fields env self st =
     (let self = clean_field ''department''
                   (DepartmentChoiceField_clean st (department (data self)))
                   (\<lambda>v cd. cd\<lparr>department := Some v\<rparr>) self;
          self = clean_field ''first_name''
                   (CharField_clean (Some 200) (first_name (data self)))
                   (\<lambda>v cd. cd\<lparr>first_name := Some v\<rparr>) self;
          self = clean_field ''last_name''
                   (CharField_clean (Some 200) (last_name (data self)))
                   (\<lambda>v cd. cd\<lparr>last_name := Some v\<rparr>) self;
          self = clean_field ''registry_id''
                   (CharField_clean (Some 100) (registry_id (data self)))
                   (\<lambda>v cd. cd\<lparr>registry_id := Some v\<rparr>) self;
          self = clean_field ''admission_year''
                   (admission_year_clean env (admission_year (data self)))
                   (\<lambda>v cd. cd\<lparr>admission_year := Some v\<rparr>) self;
          self = clean_field ''email''
                   (EmailField_clean env (Some 254) (email (data self)))
                   (\<lambda>v cd. cd\<lparr>email := Some v\<rparr>) self;
          self = clean_field ''password1''
                   (CharField_clean None (password1 (data self)))
                   (\<lambda>v cd. cd\<lparr>password1 := Some v\<rparr>) self;
          self = clean_field ''password2''
                   (CharField_clean None (password2 (data self)))
                   (\<lambda>v cd. cd\<lparr>password2 := Some v\<rparr>) self
      in UserCreationForm_clean_password2 self)"

text \<open>
  \<^verbatim>\<open>StudentSignupForm.clean\<close>. \<^verbatim>\<open>super().clean()\<close> returns \<^verbatim>\<open>self.cleaned_data\<close>. A
  queryset is true when it has a row.
\<close>

definition StudentSignupForm_clean :: "form \<Rightarrow> field_values db" where
  "StudentSignupForm_clean self =
     (\<lambda>st.
        let cleaned_data = cleaned_data self;
            reg_id = registry_id cleaned_data
        in if objects_filter (\<lambda>r. s_registry_id (obj r) = reg_id) (students st) \<noteq> []
           then (Inl registry_id_exists, st)
           else (Inr cleaned_data, st))"

definition StudentSignupForm_full_clean :: "env \<Rightarrow> field_values \<Rightarrow> store \<Rightarrow> form \<times> store" where
  "StudentSignupForm_full_clean env d st =
     (let self = StudentSignupForm_clean_fields env (bound_form d) st in
      case StudentSignupForm_clean self st of
        (r, st') \<Rightarrow> (ModelForm_post_clean (clean_form r self) st', st'))"

text \<open>
  \<^verbatim>\<open>StudentSignupForm.save\<close>, first without its decorator. \<^verbatim>\<open>Student.objects.create(user=user)\<close>
  stores a row whose other attributes are not yet assigned; the four assignments and
  \<^verbatim>\<open>student.save()\<close> follow.
\<close>

definition StudentSignupForm_save_body :: "env \<Rightarrow> form \<Rightarrow> (int \<times> User) db" where
  "StudentSignupForm_save_body env self =
     bind_db (query (\<lambda>st. UserCreationForm_save_commit_False env self)) (\<lambda>user.
     let user = user\<lparr>is_student := True\<rparr> in
     bind_db (\<lambda>st. case objects_create user (users st) of
                     (r, t) \<Rightarrow> (Inr r, st\<lparr>users := t\<rparr>)) (\<lambda>user.
     bind_db (\<lambda>st. case objects_create
                          \<lparr>s_user = pk user, s_registry_id = None, s_first_name = None,
                           s_last_name = None, s_admission_year = None\<rparr> (students st) of
                     (r, t) \<Rightarrow> (Inr r, st\<lparr>students := t\<rparr>)) (\<lambda>student.
     let student = (pk student, (obj student)\<lparr>s_registry_id := registry_id (cleaned_data self)\<rparr>);
         student = (pk student, (obj student)\<lparr>s_first_name := first_name (cleaned_data self)\<rparr>);
         student = (pk student, (obj student)\<lparr>s_last_name := last_name (cleaned_data self)\<rparr>);
         student = (pk student,
                    (obj student)\<lparr>s_admission_year := admission_year (cleaned_data self)\<rparr>)
     in
     bind_db (exec (\<lambda>st. st\<lparr>students := Model_save student (students st)\<rparr>)) (\<lambda>_.
     bind_db (\<lambda>st. case objects_create
                          \<lparr>ds_dept_id = department (cleaned_data self),
                           ds_user_id = pk user\<rparr> (dept_students st) of
                     (r, t) \<Rightarrow> (Inr r, st\<lparr>dept_students := t\<rparr>)) (\<lambda>_.
     return_db user)))))"

definition StudentSignupForm_save :: "env \<Rightarrow> form \<Rightarrow> (int \<times> User) db" where
  "StudentSignupForm_save env self = atomic (StudentSignupForm_save_body env self)"

subsection \<open>\<^verbatim>\<open>StudentUpdateForm\<close>\<close>

text \<open>The fields, in the order the class declares them.\<close>

definition StudentUpdateForm_clean_fields :: "env \<Rightarrow> form \<Rightarrow> store \<Rightarrow> form" where
  "StudentUpdateForm_clean_fields env self st =
     (let self = clean_field ''user_id''
                   (IntegerField_clean None None (user_id (data self)))
                   (\<lambda>v cd. cd\<lparr>user_id := Some v\<rparr>) self;
          self = clean_field ''department''
                   (DepartmentChoiceField_clean st (department (data self)))
                   (\<lambda>v cd. cd\<lparr>department := Some v\<rparr>) self;
          self = clean_field ''first_name''
                   (CharField_clean (Some 200) (first_name (data self)))
                   (\<lambda>v cd. cd\<lparr>first_name := Some v\<rparr>) self;
          self = clean_field ''last_name''
                   (CharField_clean (Some 200) (last_name (data self)))
                   (\<lambda>v cd. cd\<lparr>last_name := Some v\<rparr>) self;
          self = clean_field ''registry_id''
                   (CharField_clean (Some 100) (registry_id (data self)))
                   (\<lambda>v cd. cd\<lparr>registry_id := Some v\<rparr>) self;
          self = clean_field ''admission_year''
                   (admission_year_clean env (admission_year (data self)))
                   (\<lambda>v cd. cd\<lparr>admission_year := Some v\<rparr>) self;
          self = clean_field ''email''
                   (EmailField_clean env (Some 254) (email (data self)))
                   (\<lambda>v cd. cd\<lparr>email := Some v\<rparr>) self
      in self)"

text \<open>
  \<^verbatim>\<open>StudentUpdateForm.clean\<close>. \<^verbatim>\<open>exists[0]\<close> is the first row of the queryset;
  \<^verbatim>\<open>exists[0].user.id\<close> is the key the student's foreign key holds. The email is checked
  first, and the exception it raises ends the method.
\<close>

definition StudentUpdateForm_clean :: "form \<Rightarrow> field_values db" where
  "StudentUpdateForm_clean self =
     (\<lambda>st.
        let cleaned_data = cleaned_data self;
            exists = objects_filter (\<lambda>r. u_email (obj r) = email cleaned_data) (users st)
        in if exists \<noteq> [] \<and> \<not> (Some (pk (hd exists)) = user_id cleaned_data)
           then (Inl email_exists, st)
           else
             let reg_id = registry_id cleaned_data;
                 exists = objects_filter (\<lambda>r. s_registry_id (obj r) = reg_id) (students st)
             in if exists \<noteq> [] \<and> \<not> (Some (s_user (obj (hd exists))) = user_id cleaned_data)
                then (Inl registry_id_exists, st)
                else (Inr cleaned_data, st))"

definition StudentUpdateForm_full_clean :: "env \<Rightarrow> field_values \<Rightarrow> store \<Rightarrow> form \<times> store" where
  "StudentUpdateForm_full_clean env d st =
     (let self = StudentUpdateForm_clean_fields env (bound_form d) st in
      case StudentUpdateForm_clean self st of
        (r, st') \<Rightarrow> (clean_form r self, st'))"

definition StudentUpdateForm_save_body :: "form \<Rightarrow> (int \<times> User) db" where
  "StudentUpdateForm_save_body self =
     bind_db (query (\<lambda>st. objects_get (\<lambda>r. Some (pk r) = user_id (cleaned_data self)) (users st)))
       (\<lambda>user.
     let user = (pk user, (obj user)\<lparr>u_email := email (cleaned_data self)\<rparr>) in
     bind_db (exec (\<lambda>st. st\<lparr>users := Model_save user (users st)\<rparr>)) (\<lambda>_.
     bind_db (query (\<lambda>st. objects_get (\<lambda>r. s_user (obj r) = pk user) (students st)))
       (\<lambda>student.
     let student = (pk student, (obj student)\<lparr>s_first_name := first_name (cleaned_data self)\<rparr>);
         student = (pk student, (obj student)\<lparr>s_last_name := last_name (cleaned_data self)\<rparr>);
         student = (pk student, (obj student)\<lparr>s_registry_id := registry_id (cleaned_data self)\<rparr>);
         student = (pk student,
                    (obj student)\<lparr>s_admission_year := admission_year (cleaned_data self)\<rparr>)
     in
     bind_db (exec (\<lambda>st. st\<lparr>students := Model_save student (students st)\<rparr>)) (\<lambda>_.
     bind_db (query (\<lambda>st. objects_get (\<lambda>r. ds_user_id (obj r) = pk user) (dept_students st)))
       (\<lambda>dept.
     let dept = (pk dept, (obj dept)\<lparr>ds_dept_id := department (cleaned_data self)\<rparr>) in
     bind_db (exec (\<lambda>st. st\<lparr>dept_students := Model_save dept (dept_students st)\<rparr>)) (\<lambda>_.
     return_db user))))))"

definition StudentUpdateForm_save :: "form \<Rightarrow> (int \<times> User) db" where
  "StudentUpdateForm_save self = atomic (StudentUpdateForm_save_body self)"

subsection \<open>\<^verbatim>\<open>TeacherSignupForm\<close>\<close>

definition TeacherSignupForm_clean_fields :: "env \<Rightarrow> form \<Rightarrow> store \<Rightarrow> form" where
  "TeacherSignupForm_clean_fields env self st =
     (let self = clean_field ''department''
                   (DepartmentChoiceField_clean st (department (data self)))
                   (\<lambda>v cd. cd\<lparr>department := Some v\<rparr>) self;
          self = clean_field ''first_name''
                   (CharField_clean (Some 200) (first_name (data self)))
                   (\<lambda>v cd. cd\<lparr>first_name := Some v\<rparr>) self;
          self = clean_field ''last_name''
                   (CharField_clean (Some 200) (last_name (data self)))
                   (\<lambda>v cd. cd\<lparr>last_name := Some v\<rparr>) self;
          self = clean_field ''rank''
                   (ChoiceField_clean (TeacherRanks_choices env) (rank (data self)))
                   (\<lambda>v cd. cd\<lparr>rank := Some v\<rparr>) self;
          self = clean_field ''email''
                   (EmailField_clean env (Some 255) (email (data self)))
                   (\<lambda>v cd. cd\<lparr>email := Some v\<rparr>) self;
          self = clean_field ''password1''
                   (CharField_clean None (password1 (data self)))
                   (\<lambda>v cd. cd\<lparr>password1 := Some v\<rparr>) self;
          self = clean_field ''password2''
                   (CharField_clean None (password2 (data self)))
                   (\<lambda>v cd. cd\<lparr>password2 := Some v\<rparr>) self
      in UserCreationForm_clean_password2 self)"

text \<open>
  The class has no \<^verbatim>\<open>clean\<close> of its own: the inherited one returns
  \<^verbatim>\<open>self.cleaned_data\<close>.
\<close>

definition TeacherSignupForm_full_clean :: "env \<Rightarrow> field_values \<Rightarrow> store \<Rightarrow> form \<times> store" where
  "TeacherSignupForm_full_clean env d st =
     (let self = TeacherSignupForm_clean_fields env (bound_form d) st in
      (ModelForm_post_clean (clean_form (Inr (cleaned_data self)) self) st, st))"

definition TeacherSignupForm_save_body :: "env \<Rightarrow> form \<Rightarrow> (int \<times> User) db" where
  "TeacherSignupForm_save_body env self =
     bind_db (query (\<lambda>st. UserCreationForm_save_commit_False env self)) (\<lambda>user.
     let user = user\<lparr>is_teacher := True\<rparr> in
     bind_db (\<lambda>st. case objects_create user (users st) of
                     (r, t) \<Rightarrow> (Inr r, st\<lparr>users := t\<rparr>)) (\<lambda>user.
     bind_db (\<lambda>st. case objects_create
                          \<lparr>t_user = pk user, t_first_name = None, t_last_name = None,
                           t_rank = None\<rparr> (teachers st) of
                     (r, t) \<Rightarrow> (Inr r, st\<lparr>teachers := t\<rparr>)) (\<lambda>teacher.
     let teacher = (pk teacher, (obj teacher)\<lparr>t_first_name := first_name (cleaned_data self)\<rparr>);
         teacher = (pk teacher, (obj teacher)\<lparr>t_last_name := last_name (cleaned_data self)\<rparr>);
         teacher = (pk teacher, (obj teacher)\<lparr>t_rank := rank (cleaned_data self)\<rparr>)
     in
     bind_db (exec (\<lambda>st. st\<lparr>teachers := Model_save teacher (teachers st)\<rparr>)) (\<lambda>_.
     bind_db (\<lambda>st. case objects_create
                          \<lparr>dt_dept_id = department (cleaned_data self),
                           dt_user_id = pk user\<rparr> (dept_teachers st) of
                     (r, t) \<Rightarrow> (Inr r, st\<lparr>dept_teachers := t\<rparr>)) (\<lambda>_.
     return_db user)))))"

definition TeacherSignupForm_save :: "env \<Rightarrow> form \<Rightarrow> (int \<times> User) db" where
  "TeacherSignupForm_save env self = atomic (TeacherSignupForm_save_body env self)"

subsection \<open>\<^verbatim>\<open>TeacherUpdateForm\<close>\<close>

definition TeacherUpdateForm_clean_fields :: "env \<Rightarrow> form \<Rightarrow> store \<Rightarrow> form" where
  "TeacherUpdateForm_clean_fields env self st =
     (let self = clean_field ''user_id''
                   (IntegerField_clean None None (user_id (data self)))
                   (\<lambda>v cd. cd\<lparr>user_id := Some v\<rparr>) self;
          self = clean_field ''department''
                   (DepartmentChoiceField_clean st (department (data self)))
                   (\<lambda>v cd. cd\<lparr>department := Some v\<rparr>) self;
          self = clean_field ''first_name''
                   (CharField_clean (Some 200) (first_name (data self)))
                   (\<lambda>v cd. cd\<lparr>first_name := Some v\<rparr>) self;
          self = clean_field ''last_name''
                   (CharField_clean (Some 200) (last_name (data self)))
                   (\<lambda>v cd. cd\<lparr>last_name := Some v\<rparr>) self;
          self = clean_field ''rank''
                   (ChoiceField_clean (TeacherRanks_choices env) (rank (data self)))
                   (\<lambda>v cd. cd\<lparr>rank := Some v\<rparr>) self;
          self = clean_field ''email''
                   (EmailField_clean env (Some 254) (email (data self)))
                   (\<lambda>v cd. cd\<lparr>email := Some v\<rparr>) self
      in self)"

definition TeacherUpdateForm_clean :: "form \<Rightarrow> field_values db" where
  "TeacherUpdateForm_clean self =
     (\<lambda>st.
        let cleaned_data = cleaned_data self;
            exists = objects_filter (\<lambda>r. u_email (obj r) = email cleaned_data) (users st)
        in if exists \<noteq> [] \<and> \<not> (Some (pk (hd exists)) = user_id cleaned_data)
           then (Inl email_exists, st)
           else (Inr cleaned_data, st))"

definition TeacherUpdateForm_full_clean :: "env \<Rightarrow> field_values \<Rightarrow> store \<Rightarrow> form \<times> store" where
  "TeacherUpdateForm_full_clean env d st =
     (let self = TeacherUpdateForm_clean_fields env (bound_form d) st in
      case TeacherUpdateForm_clean self st of
        (r, st') \<Rightarrow> (clean_form r self, st'))"

definition TeacherUpdateForm_save_body :: "form \<Rightarrow> (int \<times> User) db" where
  "TeacherUpdateForm_save_body self =
     bind_db (query (\<lambda>st. objects_get (\<lambda>r. Some (pk r) = user_id (cleaned_data self)) (users st)))
       (\<lambda>user.
     let user = (pk user, (obj user)\<lparr>u_email := email (cleaned_data self)\<rparr>) in
     bind_db (exec (\<lambda>st. st\<lparr>users := Model_save user (users st)\<rparr>)) (\<lambda>_.
     bind_db (query (\<lambda>st. objects_get (\<lambda>r. t_user (obj r) = pk user) (teachers st)))
       (\<lambda>teacher.
     let teacher = (pk teacher, (obj teacher)\<lparr>t_first_name := first_name (cleaned_data self)\<rparr>);
         teacher = (pk teacher, (obj teacher)\<lparr>t_last_name := last_name (cleaned_data self)\<rparr>);
         teacher = (pk teacher, (obj teacher)\<lparr>t_rank := rank (cleaned_data self)\<rparr>)
     in
     bind_db (exec (\<lambda>st. st\<lparr>teachers := Model_save teacher (teachers st)\<rparr>)) (\<lambda>_.
     bind_db (query (\<lambda>st. objects_get (\<lambda>r. dt_user_id (obj r) = pk user) (dept_teachers st)))
       (\<lambda>dept.
     let dept = (pk dept, (obj dept)\<lparr>dt_dept_id := department (cleaned_data self)\<rparr>) in
     bind_db (exec (\<lambda>st. st\<lparr>dept_teachers := Model_save dept (dept_teachers st)\<rparr>)) (\<lambda>_.
     return_db user))))))"

definition TeacherUpdateForm_save :: "form \<Rightarrow> (int \<times> User) db" where
  "TeacherUpdateForm_save self = atomic (TeacherUpdateForm_save_body self)"

subsection \<open>\<^verbatim>\<open>DeptadminSignupForm\<close>\<close>

definition DeptadminSignupForm_clean_fields :: "env \<Rightarrow> form \<Rightarrow> store \<Rightarrow> form" where
  "DeptadminSignupForm_clean_fields env self st =
     (let self = clean_field ''department''
                   (DepartmentChoiceField_clean st (department (data self)))
                   (\<lambda>v cd. cd\<lparr>department := Some v\<rparr>) self;
          self = clean_field ''email''
                   (EmailField_clean env (Some 255) (email (data self)))
                   (\<lambda>v cd. cd\<lparr>email := Some v\<rparr>) self;
          self = clean_field ''password1''
                   (CharField_clean None (password1 (data self)))
                   (\<lambda>v cd. cd\<lparr>password1 := Some v\<rparr>) self;
          self = clean_field ''password2''
                   (CharField_clean None (password2 (data self)))
                   (\<lambda>v cd. cd\<lparr>password2 := Some v\<rparr>) self
      in UserCreationForm_clean_password2 self)"

definition DeptadminSignupForm_full_clean :: "env \<Rightarrow> field_values \<Rightarrow> store \<Rightarrow> form \<times> store" where
  "DeptadminSignupForm_full_clean env d st =
     (let self = DeptadminSignupForm_clean_fields env (bound_form d) st in
      (ModelForm_post_clean (clean_form (Inr (cleaned_data self)) self) st, st))"

text \<open>
  \<^verbatim>\<open>DeptadminSignupForm.save\<close>: the \<^verbatim>\<open>Deptadmin\<close> row is created with the department, and
  \<^verbatim>\<open>deptadmin.save()\<close> writes it once more.
\<close>

definition DeptadminSignupForm_save_body :: "env \<Rightarrow> form \<Rightarrow> (int \<times> User) db" where
  "DeptadminSignupForm_save_body env self =
     bind_db (query (\<lambda>st. UserCreationForm_save_commit_False env self)) (\<lambda>user.
     let user = user\<lparr>is_deptadmin := True\<rparr>;
         user = user\<lparr>is_staff := True\<rparr> in
     bind_db (\<lambda>st. case objects_create user (users st) of
                     (r, t) \<Rightarrow> (Inr r, st\<lparr>users := t\<rparr>)) (\<lambda>user.
     bind_db (\<lambda>st. case objects_create
                          \<lparr>da_user = pk user,
                           da_department = department (cleaned_data self)\<rparr> (deptadmins st) of
                     (r, t) \<Rightarrow> (Inr r, st\<lparr>deptadmins := t\<rparr>)) (\<lambda>deptadmin.
     bind_db (exec (\<lambda>st. st\<lparr>deptadmins := Model_save deptadmin (deptadmins st)\<rparr>)) (\<lambda>_.
     return_db user))))"

definition DeptadminSignupForm_save :: "env \<Rightarrow> form \<Rightarrow> (int \<times> User) db" where
  "DeptadminSignupForm_save env self = atomic (DeptadminSignupForm_save_body env self)"

subsection \<open>\<^verbatim>\<open>DeptadminUpdateForm\<close>\<close>

definition DeptadminUpdateForm_clean_fields :: "env \<Rightarrow> form \<Rightarrow> store \<Rightarrow> form" where
  "DeptadminUpdateForm_clean_fields env self st =
     (let self = clean_field ''user_id''
                   (IntegerField_clean None None (user_id (data self)))
                   (\<lambda>v cd. cd\<lparr>user_id := Some v\<rparr>) self;
          self = clean_field ''department''
                   (DepartmentChoiceField_clean st (department (data self)))
                   (\<lambda>v cd. cd\<lparr>department := Some v\<rparr>) self;
          self = clean_field ''email''
                   (EmailField_clean env (Some 254) (email (data self)))
                   (\<lambda>v cd. cd\<lparr>email := Some v\<rparr>) self
      in self)"

definition DeptadminUpdateForm_clean :: "form \<Rightarrow> field_values db" where
  "DeptadminUpdateForm_clean self =
     (\<lambda>st.
        let cleaned_data = cleaned_data self;
            exists = objects_filter (\<lambda>r. u_email (obj r) = email cleaned_data) (users st)
        in if exists \<noteq> [] \<and> \<not> (Some (pk (hd exists)) = user_id cleaned_data)
           then (Inl email_exists, st)
           else (Inr cleaned_data, st))"

definition DeptadminUpdateForm_full_clean :: "env \<Rightarrow> field_values \<Rightarrow> store \<Rightarrow> form \<times> store" where
  "DeptadminUpdateForm_full_clean env d st =
     (let self = DeptadminUpdateForm_clean_fields env (bound_form d) st in
      case DeptadminUpdateForm_clean self st of
        (r, st') \<Rightarrow> (clean_form r self, st'))"

definition DeptadminUpdateForm_save_body :: "form \<Rightarrow> (int \<times> User) db" where
  "DeptadminUpdateForm_save_body self =
     bind_db (query (\<lambda>st. objects_get (\<lambda>r. Some (pk r) = user_id (cleaned_data self)) (users st)))
       (\<lambda>user.
     let user = (pk user, (obj user)\<lparr>u_email := email (cleaned_data self)\<rparr>) in
     bind_db (exec (\<lambda>st. st\<lparr>users := Model_save user (users st)\<rparr>)) (\<lambda>_.
     bind_db (query (\<lambda>st. objects_get (\<lambda>r. da_user (obj r) = pk user) (deptadmins st)))
       (\<lambda>deptadmin.
     let deptadmin =
           (pk deptadmin, (obj deptadmin)\<lparr>da_department := department (cleaned_data self)\<rparr>) in
     bind_db (exec (\<lambda>st. st\<lparr>deptadmins := Model_save deptadmin (deptadmins st)\<rparr>)) (\<lambda>_.
     return_db user))))"

definition DeptadminUpdateForm_save :: "form \<Rightarrow> (int \<times> User) db" where
  "DeptadminUpdateForm_save self = atomic (DeptadminUpdateForm_save_body self)"

section \<open>The operations of the module\<close>

text \<open>
  Every method of \<^verbatim>\<open>forms.py\<close> that reads or writes the store, applied to a form:
  the validation of each form class on submitted data, the four actions of
  \<^verbatim>\<open>UserActionForm\<close>, and the \<^verbatim>\<open>save\<close> of each signup and update form. \<open>run\<close> gives
  the store an operation leaves, whatever its outcome.
\<close>

datatype operation =
    Signin field_values
  | Accept form
  | Delete form
  | Activate form
  | Deactivate form
  | StudentSignup_validate field_values
  | StudentSignup_save form
  | StudentUpdate_validate field_values
  | StudentUpdate_save form
  | TeacherSignup_validate field_values
  | TeacherSignup_save form
  | TeacherUpdate_validate field_values
  | TeacherUpdate_save form
  | DeptadminSignup_validate field_values
  | DeptadminSignup_save form
  | DeptadminUpdate_validate field_values
  | DeptadminUpdate_save form

fun run :: "env \<Rightarrow> operation \<Rightarrow> store \<Rightarrow> store" where
  "run env (Signin d) st = snd (SigninForm_full_clean env d st)"
| "run env (Accept self) st = snd (UserActionForm_accept self st)"
| "run env (Delete self) st = snd (UserActionForm_delete self st)"
| "run env (Activate self) st = snd (UserActionForm_activate self st)"
| "run env (Deactivate self) st = snd (UserActionForm_deactivate self st)"
| "run env (StudentSignup_validate d) st = snd (StudentSignupForm_full_clean env d st)"
| "run env (StudentSignup_save self) st = snd (StudentSignupForm_save env self st)"
| "run env (StudentUpdate_validate d) st = snd (StudentUpdateForm_full_clean env d st)"
| "run env (StudentUpdate_save self) st = snd (StudentUpdateForm_save self st)"
| "run env (TeacherSignup_validate d) st = snd (TeacherSignupForm_full_clean env d st)"
| "run env (TeacherSignup_save self) st = snd (TeacherSignupForm_save env self st)"
| "run env (TeacherUpdate_validate d) st = snd (TeacherUpdateForm_full_clean env d st)"
| "run env (TeacherUpdate_save self) st = snd (TeacherUpdateForm_save self st)"
| "run env (DeptadminSignup_validate d) st = snd (DeptadminSignupForm_full_clean env d st)"
| "run env (DeptadminSignup_save self) st = snd (DeptadminSignupForm_save env self st)"
| "run env (DeptadminUpdate_validate d) st = snd (DeptadminUpdateForm_full_clean env d st)"
| "run env (DeptadminUpdate_save self) st = snd (DeptadminUpdateForm_save self st)"

text \<open>The operation is \<^verbatim>\<open>UserActionForm.accept\<close> on the user with key \<open>k\<close>.\<close>

fun accepts :: "int \<Rightarrow> operation \<Rightarrow> bool" where
  "accepts k (Accept self) = (user_id (cleaned_data self) = Some k)"
| "accepts k _ = False"

text \<open>The stored user under a key, and its \<open>is_accepted\<close> flag (false when there is none).\<close>

definition user_of :: "store \<Rightarrow> int \<Rightarrow> User option" where
  "user_of st k = map_of (rows (users st)) k"

definition accepted :: "store \<Rightarrow> int \<Rightarrow> bool" where
  "accepted st k = (case user_of st k of None \<Rightarrow> False | Some u \<Rightarrow> is_accepted u)"

text \<open>The role flags of a user: student, teacher, deptadmin, staff.\<close>

definition role_flags :: "User \<Rightarrow> bool \<times> bool \<times> bool \<times> bool" where
  "role_flags u = (is_student u, is_teacher u, is_deptadmin u, is_staff u)"

text \<open>The role flags of every stored user, by key.\<close>

definition role_flags_of :: "store \<Rightarrow> (int \<times> bool \<times> bool \<times> bool \<times> bool) list" where
  "role_flags_of st = map (\<lambda>r. (pk r, role_flags (obj r))) (rows (users st))"

text \<open>
  The ways an operation may change the table of users: not at all; by saving one fetched
  user with its role flags kept and its \<open>is_accepted\<close> flag kept, or set by an
  \<^verbatim>\<open>accept\<close> on that user; by creating a user that is not accepted; or by deleting the
  users under some keys.
\<close>

definition users_step :: "operation \<Rightarrow> User table \<Rightarrow> User table \<Rightarrow> bool" where
  "users_step op t t' =
     (t' = t \<or>
      (\<exists>r v. filter (\<lambda>x. pk x = pk r) (rows t) = [r] \<and> t' = Model_save (pk r, v) t \<and>
         role_flags v = role_flags (obj r) \<and>
         (is_accepted v = is_accepted (obj r) \<or> is_accepted v \<and> accepts (pk r) op)) \<or>
      (\<exists>v. t' = snd (objects_create v t) \<and> \<not> is_accepted v) \<or>
      (\<exists>D. t' = queryset_delete (\<lambda>r. pk r \<in> D) t))"

section \<open>Invariants of the store\<close>

text \<open>
  The key sequence of a table is ahead of every key in it, so a created row gets a key
  that no row has. Emails are unique across users and registry ids across students
  (specification, section 3).
\<close>

definition table_wf :: "'r table \<Rightarrow> bool" where
  "table_wf t = list_all (\<lambda>r. pk r < next_pk t) (rows t)"



section \<open>A small store, for concrete runs\<close>

definition env0 :: env where
  "env0 =
     \<lparr>EMAIL_LENGTH = 254, TeacherRanks_choices = [''PROF'', ''LECT''], import_year = 2023,
      validate_email = (\<lambda>s. CHR ''@'' \<in> set s),
      make_password = (\<lambda>p. ''h$'' @ p),
      check_password = (\<lambda>p h. h = ''h$'' @ p),
      is_active_default = True\<rparr>"

definition alice :: User where
  "alice =
     \<lparr>u_email = Some ''a@x.org'', u_password = ''h$pw1'', is_student = True,
      is_teacher = False, is_deptadmin = False, is_staff = False, is_accepted = True,
      is_active = True\<rparr>"

definition bob :: User where
  "bob =
     \<lparr>u_email = Some ''b@x.org'', u_password = ''h$pw2'', is_student = True,
      is_teacher = False, is_deptadmin = False, is_staff = False, is_accepted = False,
      is_active = True\<rparr>"

definition carol :: User where
  "carol =
     \<lparr>u_email = Some ''c@x.org'', u_password = ''h$pw3'', is_student = False,
      is_teacher = True, is_deptadmin = False, is_staff = False, is_accepted = True,
      is_active = True\<rparr>"

definition dave :: User where
  "dave =
     \<lparr>u_email = Some ''d@x.org'', u_password = ''h$pw4'', is_student = False,
      is_teacher = False, is_deptadmin = True, is_staff = True, is_accepted = True,
      is_active = True\<rparr>"

text \<open>
  Alice and Bob are students, Carol is a teacher, Dave a department admin. Bob has no
  membership row.
\<close>

definition store0 :: store where
  "store0 =
     \<lparr>users = \<lparr>rows = [(1, alice), (2, bob), (3, carol), (4, dave)], next_pk = 5\<rparr>,
      students =
        \<lparr>rows =
           [(1, \<lparr>s_user = 1, s_registry_id = Some ''R1'', s_first_name = Some ''Alice'',
                 s_last_name = Some ''A'', s_admission_year = Some 2020\<rparr>),
            (2, \<lparr>s_user = 2, s_registry_id = Some ''R2'', s_first_name = Some ''Bob'',
                 s_last_name = Some ''B'', s_admission_year = Some 2021\<rparr>)],
         next_pk = 3\<rparr>,
      teachers =
        \<lparr>rows = [(1, \<lparr>t_user = 3, t_first_name = Some ''Carol'', t_last_name = Some ''C'',
                       t_rank = Some ''PROF''\<rparr>)],
         next_pk = 2\<rparr>,
      deptadmins = \<lparr>rows = [(1, \<lparr>da_user = 4, da_department = Some 1\<rparr>)], next_pk = 2\<rparr>,
      departments = \<lparr>rows = [(1, \<lparr>d_name = ''Math''\<rparr>), (2, \<lparr>d_name = ''Physics''\<rparr>)],
                     next_pk = 3\<rparr>,
      dept_students = \<lparr>rows = [(1, \<lparr>ds_dept_id = Some 1, ds_user_id = 1\<rparr>)], next_pk = 2\<rparr>,
      dept_teachers = \<lparr>rows = [(1, \<lparr>dt_dept_id = Some 1, dt_user_id = 3\<rparr>)], next_pk = 2\<rparr>\<rparr>"

text \<open>A form whose cleaned data is only a \<^verbatim>\<open>user_id\<close>.\<close>

definition action_form :: "int \<Rightarrow> form" where
  "action_form k = UserActionForm_full_clean (no_values\<lparr>user_id := Some k\<rparr>)"


text \<open>A student signup that the small store accepts.\<close>

definition signup_eve :: field_values where
  "signup_eve =
     no_values\<lparr>department := Some 2, first_name := Some ''Eve'', last_name := Some ''E'',
       registry_id := Some ''R5'', admission_year := Some 2022, email := Some ''e@x.org'',
       password1 := Some ''pw5'', password2 := Some ''pw5''\<rparr>"

text \<open>An update of Alice's profile that changes nothing.\<close>

definition update_alice :: field_values where
  "update_alice =
     no_values\<lparr>user_id := Some 1, department := Some 1, first_name := Some ''Alice'',
       last_name := Some ''A'', registry_id := Some ''R1'', admission_year := Some 2020,
       email := Some ''a@x.org''\<rparr>"

text \<open>An update of Bob's profile with a new email and department.\<close>

definition update_bob :: field_values where
  "update_bob =
     no_values\<lparr>user_id := Some 2, department := Some 2, first_name := Some ''Bob'',
       last_name := Some ''B'', registry_id := Some ''R2'', admission_year := Some 2021,
       email := Some ''b2@x.org''\<rparr>"

text \<open>A department admin signup that the small store accepts.\<close>

definition signup_frank :: field_values where
  "signup_frank =
     no_values\<lparr>department := Some 2, email := Some ''f@x.org'',
       password1 := Some ''pw6'', password2 := Some ''pw6''\<rparr>"

text \<open>Updates of Carol's and of Dave's profile.\<close>

definition update_carol :: field_values where
  "update_carol =
     no_values\<lparr>user_id := Some 3, department := Some 2, first_name := Some ''Carol'',
       last_name := Some ''C'', rank := Some ''LECT'', email := Some ''c2@x.org''\<rparr>"

definition update_dave :: field_values where
  "update_dave =
     no_values\<lparr>user_id := Some 4, department := Some 2, email := Some ''d2@x.org''\<rparr>"

section \<open>Facts about the ORM calls\<close>

lemma objects_filter_none:
  "\<forall>r \<in> set (rows t). \<not> P r \<Longrightarrow> objects_filter P t = []"
  by (simp add: objects_filter_def)

lemma objects_get_none:
  "\<forall>r \<in> set (rows t). \<not> P r \<Longrightarrow> objects_get P t = Inl DoesNotExist"
  by (simp add: objects_get_def objects_filter_none)

lemma queryset_delete_none:
  "queryset_delete (\<lambda>r. False) t = t"
  by (simp add: queryset_delete_def)

lemma db_simps:
  "bind_db m f st = (case m st of (Inl e, st') \<Rightarrow> (Inl e, st') | (Inr x, st') \<Rightarrow> f x st')"
  "query q st = (q st, st)"
  "exec w st = (Inr (), w st)"
  "return_db x st = (Inr x, st)"
  "raise_db e st = (Inl e, st)"
  by (simp_all add: bind_db_def query_def exec_def return_db_def raise_db_def)

lemma objects_get_Inr:
  assumes "objects_get P t = Inr r"
  shows "objects_filter P t = [r]"
  using assms by (auto simp: objects_get_def split: list.splits)

lemma objects_get_member:
  assumes "objects_get P t = Inr r"
  shows "r \<in> set (rows t) \<and> P r"
proof -
  have "r \<in> set (filter P (rows t))"
    using objects_get_Inr [OF assms] by (simp add: objects_filter_def)
  then show ?thesis by simp
qed

text \<open>Saving a row that was just fetched is an update: no row is added.\<close>

lemma Model_save_fetched:
  assumes "objects_get P t = Inr r"
  shows "Model_save (pk r, v) t =
         t\<lparr>rows := map (\<lambda>x. if pk x = pk r then (pk r, v) else x) (rows t)\<rparr>"
proof -
  have "r \<in> set (rows t)" using objects_get_member [OF assms] by simp
  then have "pk r \<in> set (map pk (rows t))" by force
  then show ?thesis by (simp add: Model_save_def)
qed

text \<open>
  In a table whose sequence is ahead of its keys, creating a row and then saving it with
  other attributes leaves the same table as creating it with those attributes.
\<close>

lemma Model_save_created:
  assumes "table_wf t"
  shows "Model_save (next_pk t, v') (snd (objects_create v t)) = snd (objects_create v' t)"
proof -
  have "\<forall>x \<in> set (rows t). pk x \<noteq> next_pk t"
    using assms by (auto simp: table_wf_def list_all_iff)
  then have "map (\<lambda>x. if pk x = next_pk t then (next_pk t, v') else x) (rows t) = rows t"
    by (simp add: map_idI)
  then show ?thesis by (simp add: Model_save_def objects_create_def)
qed

section \<open>What each \<^verbatim>\<open>save\<close> computes\<close>

text \<open>
  Each update reads three rows (two for a department admin) and writes them back. A
  failed read ends the method, and the transaction restores the store.
\<close>

lemma StudentUpdateForm_save_eq:
  "StudentUpdateForm_save self st =
     (case objects_get (\<lambda>r. Some (pk r) = user_id (cleaned_data self)) (users st) of
        Inl e \<Rightarrow> (Inl e, st)
      | Inr user \<Rightarrow>
         (case objects_get (\<lambda>r. s_user (obj r) = pk user) (students st) of
            Inl e \<Rightarrow> (Inl e, st)
          | Inr student \<Rightarrow>
             (case objects_get (\<lambda>r. ds_user_id (obj r) = pk user) (dept_students st) of
                Inl e \<Rightarrow> (Inl e, st)
              | Inr dept \<Rightarrow>
                 (Inr (pk user, (obj user)\<lparr>u_email := email (cleaned_data self)\<rparr>),
                  st\<lparr>users :=
                       Model_save (pk user, (obj user)\<lparr>u_email := email (cleaned_data self)\<rparr>)
                         (users st),
                     students :=
                       Model_save
                         (pk student,
                          (obj student)\<lparr>s_first_name := first_name (cleaned_data self),
                                        s_last_name := last_name (cleaned_data self),
                                        s_registry_id := registry_id (cleaned_data self),
                                        s_admission_year := admission_year (cleaned_data self)\<rparr>)
                         (students st),
                     dept_students :=
                       Model_save
                         (pk dept, (obj dept)\<lparr>ds_dept_id := department (cleaned_data self)\<rparr>)
                         (dept_students st)\<rparr>))))"
  by (simp add: StudentUpdateForm_save_def StudentUpdateForm_save_body_def atomic_def db_simps
      Let_def split: sum.splits prod.splits)

lemma TeacherUpdateForm_save_eq:
  "TeacherUpdateForm_save self st =
     (case objects_get (\<lambda>r. Some (pk r) = user_id (cleaned_data self)) (users st) of
        Inl e \<Rightarrow> (Inl e, st)
      | Inr user \<Rightarrow>
         (case objects_get (\<lambda>r. t_user (obj r) = pk user) (teachers st) of
            Inl e \<Rightarrow> (Inl e, st)
          | Inr teacher \<Rightarrow>
             (case objects_get (\<lambda>r. dt_user_id (obj r) = pk user) (dept_teachers st) of
                Inl e \<Rightarrow> (Inl e, st)
              | Inr dept \<Rightarrow>
                 (Inr (pk user, (obj user)\<lparr>u_email := email (cleaned_data self)\<rparr>),
                  st\<lparr>users :=
                       Model_save (pk user, (obj user)\<lparr>u_email := email (cleaned_data self)\<rparr>)
                         (users st),
                     teachers :=
                       Model_save
                         (pk teacher,
                          (obj teacher)\<lparr>t_first_name := first_name (cleaned_data self),
                                        t_last_name := last_name (cleaned_data self),
                                        t_rank := rank (cleaned_data self)\<rparr>)
                         (teachers st),
                     dept_teachers :=
                       Model_save
                         (pk dept, (obj dept)\<lparr>dt_dept_id := department (cleaned_data self)\<rparr>)
                         (dept_teachers st)\<rparr>))))"
  by (simp add: TeacherUpdateForm_save_def TeacherUpdateForm_save_body_def atomic_def db_simps
      Let_def split: sum.splits prod.splits)

lemma DeptadminUpdateForm_save_eq:
  "DeptadminUpdateForm_save self st =
     (case objects_get (\<lambda>r. Some (pk r) = user_id (cleaned_data self)) (users st) of
        Inl e \<Rightarrow> (Inl e, st)
      | Inr user \<Rightarrow>
         (case objects_get (\<lambda>r. da_user (obj r) = pk user) (deptadmins st) of
            Inl e \<Rightarrow> (Inl e, st)
          | Inr deptadmin \<Rightarrow>
             (Inr (pk user, (obj user)\<lparr>u_email := email (cleaned_data self)\<rparr>),
              st\<lparr>users :=
                   Model_save (pk user, (obj user)\<lparr>u_email := email (cleaned_data self)\<rparr>)
                     (users st),
                 deptadmins :=
                   Model_save
                     (pk deptadmin,
                      (obj deptadmin)\<lparr>da_department := department (cleaned_data self)\<rparr>)
                     (deptadmins st)\<rparr>)))"
  by (simp add: DeptadminUpdateForm_save_def DeptadminUpdateForm_save_body_def atomic_def
      db_simps Let_def split: sum.splits prod.splits)

text \<open>
  Each signup builds the unsaved user, then only creates and saves rows; the one step
  that can fail is the first, before anything is written.
\<close>

lemma StudentSignupForm_save_eq:
  "StudentSignupForm_save env self st =
     (case UserCreationForm_save_commit_False env self of
        Inl e \<Rightarrow> (Inl e, st)
      | Inr user \<Rightarrow>
         (Inr (next_pk (users st), user\<lparr>is_student := True\<rparr>),
          st\<lparr>users := snd (objects_create (user\<lparr>is_student := True\<rparr>) (users st)),
             students :=
               Model_save
                 (next_pk (students st),
                  \<lparr>s_user = next_pk (users st),
                   s_registry_id = registry_id (cleaned_data self),
                   s_first_name = first_name (cleaned_data self),
                   s_last_name = last_name (cleaned_data self),
                   s_admission_year = admission_year (cleaned_data self)\<rparr>)
                 (snd (objects_create
                         \<lparr>s_user = next_pk (users st), s_registry_id = None,
                          s_first_name = None, s_last_name = None,
                          s_admission_year = None\<rparr> (students st))),
             dept_students :=
               snd (objects_create
                      \<lparr>ds_dept_id = department (cleaned_data self),
                       ds_user_id = next_pk (users st)\<rparr> (dept_students st))\<rparr>))"
  by (simp add: StudentSignupForm_save_def StudentSignupForm_save_body_def atomic_def db_simps
      Let_def objects_create_def split: sum.splits prod.splits)

lemma TeacherSignupForm_save_eq:
  "TeacherSignupForm_save env self st =
     (case UserCreationForm_save_commit_False env self of
        Inl e \<Rightarrow> (Inl e, st)
      | Inr user \<Rightarrow>
         (Inr (next_pk (users st), user\<lparr>is_teacher := True\<rparr>),
          st\<lparr>users := snd (objects_create (user\<lparr>is_teacher := True\<rparr>) (users st)),
             teachers :=
               Model_save
                 (next_pk (teachers st),
                  \<lparr>t_user = next_pk (users st),
                   t_first_name = first_name (cleaned_data self),
                   t_last_name = last_name (cleaned_data self),
                   t_rank = rank (cleaned_data self)\<rparr>)
                 (snd (objects_create
                         \<lparr>t_user = next_pk (users st), t_first_name = None,
                          t_last_name = None, t_rank = None\<rparr> (teachers st))),
             dept_teachers :=
               snd (objects_create
                      \<lparr>dt_dept_id = department (cleaned_data self),
                       dt_user_id = next_pk (users st)\<rparr> (dept_teachers st))\<rparr>))"
  by (simp add: TeacherSignupForm_save_def TeacherSignupForm_save_body_def atomic_def db_simps
      Let_def objects_create_def split: sum.splits prod.splits)

lemma DeptadminSignupForm_save_eq:
  "DeptadminSignupForm_save env self st =
     (case UserCreationForm_save_commit_False env self of
        Inl e \<Rightarrow> (Inl e, st)
      | Inr user \<Rightarrow>
         (Inr (next_pk (users st), user\<lparr>is_deptadmin := True, is_staff := True\<rparr>),
          st\<lparr>users :=
               snd (objects_create (user\<lparr>is_deptadmin := True, is_staff := True\<rparr>) (users st)),
             deptadmins :=
               Model_save
                 (next_pk (deptadmins st),
                  \<lparr>da_user = next_pk (users st),
                   da_department = department (cleaned_data self)\<rparr>)
                 (snd (objects_create
                         \<lparr>da_user = next_pk (users st),
                          da_department = department (cleaned_data self)\<rparr>
                         (deptadmins st)))\<rparr>))"
  by (simp add: DeptadminSignupForm_save_def DeptadminSignupForm_save_body_def atomic_def
      db_simps Let_def objects_create_def split: sum.splits prod.splits)


section \<open>Facts about the small store\<close>




section \<open>Facts about field cleaning and validation\<close>

lemma clean_field_simps:
  "data (clean_field n r put self) = data self"
  "user_cache (clean_field n r put self) = user_cache self"
  "errors (clean_field n r put self) =
     errors self @ (case r of Inl es \<Rightarrow> map (Pair n) es | Inr v \<Rightarrow> [])"
  by (simp_all add: clean_field_def split: sum.splits)

lemma clean_field_Inr:
  "r = Inr v \<Longrightarrow> clean_field n r put self = self\<lparr>cleaned_data := put v (cleaned_data self)\<rparr>"
  by (simp add: clean_field_def)

lemma CharField_clean_valid:
  "((case CharField_clean m v of Inl es \<Rightarrow> map (Pair n) es | Inr x \<Rightarrow> []) = []) =
     (\<exists>s. v = Some s \<and> CharField_clean m v = Inr s)"
  by (auto simp: CharField_clean_def split: option.splits if_splits)

lemma EmailField_clean_valid:
  "((case EmailField_clean env m v of Inl es \<Rightarrow> map (Pair n) es | Inr x \<Rightarrow> []) = []) =
     (\<exists>s. v = Some s \<and> EmailField_clean env m v = Inr s)"
  by (auto simp: EmailField_clean_def Let_def split: option.splits if_splits)

lemma IntegerField_clean_valid:
  "((case IntegerField_clean lo hi v of Inl es \<Rightarrow> map (Pair n) es | Inr x \<Rightarrow> []) = []) =
     (\<exists>s. v = Some s \<and> IntegerField_clean lo hi v = Inr s)"
  by (auto simp: IntegerField_clean_def Let_def split: option.splits if_splits)

lemma DepartmentChoiceField_clean_valid:
  "((case DepartmentChoiceField_clean st v of Inl es \<Rightarrow> map (Pair n) es | Inr x \<Rightarrow> []) = []) =
     (\<exists>s. v = Some s \<and> DepartmentChoiceField_clean st v = Inr s)"
  by (auto simp: DepartmentChoiceField_clean_def split: option.splits if_splits)

lemma ChoiceField_clean_valid:
  "((case ChoiceField_clean cs v of Inl es \<Rightarrow> map (Pair n) es | Inr x \<Rightarrow> []) = []) =
     (\<exists>s. v = Some s \<and> ChoiceField_clean cs v = Inr s)"
  by (auto simp: ChoiceField_clean_def split: option.splits if_splits)

lemmas field_clean_valid = CharField_clean_valid EmailField_clean_valid IntegerField_clean_valid
  DepartmentChoiceField_clean_valid ChoiceField_clean_valid

lemma UserCreationForm_clean_password2_valid:
  assumes "errors (UserCreationForm_clean_password2 self) = []"
  shows "UserCreationForm_clean_password2 self = self"
  using assms
  by (auto simp: UserCreationForm_clean_password2_def split: option.splits if_splits)


lemma ModelForm_post_clean_valid:
  assumes "errors (ModelForm_post_clean self st) = []"
  shows "ModelForm_post_clean self st = self"
  using assms by (auto simp: ModelForm_post_clean_def split: option.splits if_splits)


lemmas field_defs = clean_field_def CharField_clean_def EmailField_clean_def
  IntegerField_clean_def DepartmentChoiceField_clean_def ChoiceField_clean_def
  admission_year_clean_def bound_form_def no_values_def clean_form_def
  UserCreationForm_clean_password2_def ModelForm_post_clean_def objects_filter_def

lemmas store0_defs = store0_def alice_def bob_def carol_def dave_def





section \<open>Signing in\<close>


lemma SigninForm_full_clean_store:
  "snd (SigninForm_full_clean env d st) = st"
  by (simp add: SigninForm_full_clean_def SigninForm_clean_def Let_def
      split: prod.splits option.splits sum.splits)








section \<open>Student signup\<close>

lemma StudentSignupForm_clean_fields_eq:
  "StudentSignupForm_clean_fields env self st =
   UserCreationForm_clean_password2
    (clean_field ''password2'' (CharField_clean None (password2 (data self)))
       (\<lambda>v cd. cd\<lparr>password2 := Some v\<rparr>)
    (clean_field ''password1'' (CharField_clean None (password1 (data self)))
       (\<lambda>v cd. cd\<lparr>password1 := Some v\<rparr>)
    (clean_field ''email'' (EmailField_clean env (Some 254) (email (data self)))
       (\<lambda>v cd. cd\<lparr>email := Some v\<rparr>)
    (clean_field ''admission_year'' (admission_year_clean env (admission_year (data self)))
       (\<lambda>v cd. cd\<lparr>admission_year := Some v\<rparr>)
    (clean_field ''registry_id'' (CharField_clean (Some 100) (registry_id (data self)))
       (\<lambda>v cd. cd\<lparr>registry_id := Some v\<rparr>)
    (clean_field ''last_name'' (CharField_clean (Some 200) (last_name (data self)))
       (\<lambda>v cd. cd\<lparr>last_name := Some v\<rparr>)
    (clean_field ''first_name'' (CharField_clean (Some 200) (first_name (data self)))
       (\<lambda>v cd. cd\<lparr>first_name := Some v\<rparr>)
    (clean_field ''department'' (DepartmentChoiceField_clean st (department (data self)))
       (\<lambda>v cd. cd\<lparr>department := Some v\<rparr>) self))))))))"
  by (simp only: StudentSignupForm_clean_fields_def Let_def clean_field_simps(1))


lemma StudentSignupForm_full_clean_store:
  "snd (StudentSignupForm_full_clean env d st) = st"
  by (simp add: StudentSignupForm_full_clean_def StudentSignupForm_clean_def Let_def)


lemma signup_eve_valid:
  "fst (StudentSignupForm_full_clean env0 signup_eve store0) =
     \<lparr>data = signup_eve, cleaned_data = signup_eve, errors = [], user_cache = None\<rparr>"
proof -
  have "StudentSignupForm_clean_fields env0 (bound_form signup_eve) store0 =
     \<lparr>data = signup_eve, cleaned_data = signup_eve, errors = [], user_cache = None\<rparr>"
    by (simp add: StudentSignupForm_clean_fields_eq field_defs signup_eve_def env0_def
        store0_def)
  then show ?thesis
    by (simp add: StudentSignupForm_full_clean_def StudentSignupForm_clean_def Let_def
        ModelForm_post_clean_def clean_form_def objects_filter_def signup_eve_def no_values_def
        store0_defs)
qed








section \<open>Student update\<close>

lemma StudentUpdateForm_clean_fields_eq:
  "StudentUpdateForm_clean_fields env self st =
    clean_field ''email'' (EmailField_clean env (Some 254) (email (data self)))
       (\<lambda>v cd. cd\<lparr>email := Some v\<rparr>)
    (clean_field ''admission_year'' (admission_year_clean env (admission_year (data self)))
       (\<lambda>v cd. cd\<lparr>admission_year := Some v\<rparr>)
    (clean_field ''registry_id'' (CharField_clean (Some 100) (registry_id (data self)))
       (\<lambda>v cd. cd\<lparr>registry_id := Some v\<rparr>)
    (clean_field ''last_name'' (CharField_clean (Some 200) (last_name (data self)))
       (\<lambda>v cd. cd\<lparr>last_name := Some v\<rparr>)
    (clean_field ''first_name'' (CharField_clean (Some 200) (first_name (data self)))
       (\<lambda>v cd. cd\<lparr>first_name := Some v\<rparr>)
    (clean_field ''department'' (DepartmentChoiceField_clean st (department (data self)))
       (\<lambda>v cd. cd\<lparr>department := Some v\<rparr>)
    (clean_field ''user_id'' (IntegerField_clean None None (user_id (data self)))
       (\<lambda>v cd. cd\<lparr>user_id := Some v\<rparr>) self))))))"
  by (simp only: StudentUpdateForm_clean_fields_def Let_def clean_field_simps(1))





section \<open>The bound on the admission year\<close>

text \<open>
  The field accepts a year exactly when it lies between 2000 and the year in which the
  module was imported; the time of validation is not an input of the field.
\<close>

lemma admission_year_clean_iff:
  "(admission_year_clean env (Some y) = Inr y) = (2000 \<le> y \<and> y \<le> import_year env)"
  by (auto simp: admission_year_clean_def IntegerField_clean_def Let_def)

lemma admission_year_clean_1999:
  "min_value_error \<in> set (projl (admission_year_clean env (Some 1999))) \<and>
   isl (admission_year_clean env (Some 1999))"
  by (simp add: admission_year_clean_def IntegerField_clean_def Let_def)

text \<open>
  Claim C5 says that validation enforces the bound from 2000 to the calendar year current
  at the moment of validation. The year 1999 is rejected, as the claim says. The upper
  bound is the value \<^verbatim>\<open>datetime.datetime.now().year\<close> had when the class body ran, so in
  a process that imported the module in 2023 and validates a submission in 2024, the
  admission year 2024, the current year at validation, is rejected with \<^verbatim>\<open>max_value\<close>,
  by the signup form and by the update form alike.
\<close>

theorem C5_admission_year_frozen_at_import:
  "admission_year_clean (env0\<lparr>import_year := 2023\<rparr>) (Some 1999) = Inl [min_value_error] \<and>
   admission_year_clean (env0\<lparr>import_year := 2023\<rparr>) (Some 2023) = Inr 2023 \<and>
   admission_year_clean (env0\<lparr>import_year := 2023\<rparr>) (Some 2024) = Inl [max_value_error] \<and>
   errors (fst (StudentSignupForm_full_clean (env0\<lparr>import_year := 2023\<rparr>)
                  (signup_eve\<lparr>admission_year := Some 2024\<rparr>) store0)) =
     [(''admission_year'', max_value_error)] \<and>
   errors (fst (StudentUpdateForm_full_clean (env0\<lparr>import_year := 2023\<rparr>)
                  (update_alice\<lparr>admission_year := Some 2024\<rparr>) store0)) =
     [(''admission_year'', max_value_error)]"
proof -
  have 1: "admission_year_clean (env0\<lparr>import_year := 2023\<rparr>) (Some 1999) = Inl [min_value_error]"
    and 2: "admission_year_clean (env0\<lparr>import_year := 2023\<rparr>) (Some 2023) = Inr 2023"
    and 3: "admission_year_clean (env0\<lparr>import_year := 2023\<rparr>) (Some 2024) = Inl [max_value_error]"
    by (simp_all add: admission_year_clean_def IntegerField_clean_def Let_def)
  have s: "StudentSignupForm_clean_fields (env0\<lparr>import_year := 2023\<rparr>)
             (bound_form (signup_eve\<lparr>admission_year := Some 2024\<rparr>)) store0 =
           \<lparr>data = signup_eve\<lparr>admission_year := Some 2024\<rparr>,
            cleaned_data = signup_eve\<lparr>admission_year := None\<rparr>,
            errors = [(''admission_year'', max_value_error)], user_cache = None\<rparr>"
    by (simp add: StudentSignupForm_clean_fields_eq field_defs signup_eve_def env0_def
        store0_def)
  have 4: "errors (fst (StudentSignupForm_full_clean (env0\<lparr>import_year := 2023\<rparr>)
                  (signup_eve\<lparr>admission_year := Some 2024\<rparr>) store0)) =
     [(''admission_year'', max_value_error)]"
    by (simp add: StudentSignupForm_full_clean_def Let_def s)
       (simp add: StudentSignupForm_clean_def Let_def ModelForm_post_clean_def clean_form_def
        objects_filter_def signup_eve_def no_values_def store0_defs)
  have u: "StudentUpdateForm_clean_fields (env0\<lparr>import_year := 2023\<rparr>)
             (bound_form (update_alice\<lparr>admission_year := Some 2024\<rparr>)) store0 =
           \<lparr>data = update_alice\<lparr>admission_year := Some 2024\<rparr>,
            cleaned_data = update_alice\<lparr>admission_year := None\<rparr>,
            errors = [(''admission_year'', max_value_error)], user_cache = None\<rparr>"
    by (simp add: StudentUpdateForm_clean_fields_eq field_defs update_alice_def env0_def
        store0_def)
  have 5: "errors (fst (StudentUpdateForm_full_clean (env0\<lparr>import_year := 2023\<rparr>)
                  (update_alice\<lparr>admission_year := Some 2024\<rparr>) store0)) =
     [(''admission_year'', max_value_error)]"
    by (simp add: StudentUpdateForm_full_clean_def Let_def u)
       (simp add: StudentUpdateForm_clean_def Let_def clean_form_def
        objects_filter_def update_alice_def no_values_def store0_defs)
  from 1 2 3 4 5 show ?thesis by simp
qed

lemma Model_save_fetched_keys:
  assumes "objects_get P t = Inr r"
  shows "map pk (rows (Model_save (pk r, v) t)) = map pk (rows t) \<and>
         next_pk (Model_save (pk r, v) t) = next_pk t"
  by (simp add: Model_save_fetched [OF assms] comp_def if_distrib [of pk] cong: if_cong)

lemma StudentUpdateForm_clean_fields_ok:
  assumes "d = no_values\<lparr>user_id := Some U, department := Some dep, first_name := Some fn,
       last_name := Some ln, registry_id := Some rid, admission_year := Some yr,
       email := Some em\<rparr>"
    and "objects_filter (\<lambda>r. pk r = dep) (departments st) \<noteq> []"
    and "fn \<noteq> []" "length fn \<le> 200" "ln \<noteq> []" "length ln \<le> 200"
    and "rid \<noteq> []" "length rid \<le> 100" "2000 \<le> yr" "yr \<le> import_year env"
    and "em \<noteq> []" "validate_email env em" "length em \<le> 254"
  shows "StudentUpdateForm_clean_fields env (bound_form d) st =
           \<lparr>data = d, cleaned_data = d, errors = [], user_cache = None\<rparr>"
  using assms(2-)
  by (simp add: StudentUpdateForm_clean_fields_eq clean_field_def CharField_clean_def
      EmailField_clean_def IntegerField_clean_def DepartmentChoiceField_clean_def
      admission_year_clean_def bound_form_def assms(1) no_values_def)

lemma update_bob_form:
  "fst (StudentUpdateForm_full_clean env0 update_bob store0) =
     \<lparr>data = update_bob, cleaned_data = update_bob, errors = [], user_cache = None\<rparr>"
proof -
  have "StudentUpdateForm_clean_fields env0 (bound_form update_bob) store0 =
     \<lparr>data = update_bob, cleaned_data = update_bob, errors = [], user_cache = None\<rparr>"
    by (rule StudentUpdateForm_clean_fields_ok [where U = 2 and dep = 2 and fn = "''Bob''"
          and ln = "''B''" and rid = "''R2''" and yr = 2021 and em = "''b2@x.org''"])
       (simp_all add: update_bob_def env0_def store0_def objects_filter_def)
  then show ?thesis
    by (simp add: StudentUpdateForm_full_clean_def Let_def)
       (simp add: StudentUpdateForm_clean_def Let_def clean_form_def objects_filter_def
        update_bob_def no_values_def store0_defs)
qed

lemma update_alice_form:
  "fst (StudentUpdateForm_full_clean env0 (update_alice\<lparr>department := Some 2\<rparr>) store0) =
     \<lparr>data = update_alice\<lparr>department := Some 2\<rparr>,
      cleaned_data = update_alice\<lparr>department := Some 2\<rparr>, errors = [], user_cache = None\<rparr>"
proof -
  have "StudentUpdateForm_clean_fields env0 (bound_form (update_alice\<lparr>department := Some 2\<rparr>))
          store0 =
     \<lparr>data = update_alice\<lparr>department := Some 2\<rparr>,
      cleaned_data = update_alice\<lparr>department := Some 2\<rparr>, errors = [], user_cache = None\<rparr>"
    by (rule StudentUpdateForm_clean_fields_ok [where U = 1 and dep = 2 and fn = "''Alice''"
          and ln = "''A''" and rid = "''R1''" and yr = 2020 and em = "''a@x.org''"])
       (simp_all add: update_alice_def env0_def store0_def objects_filter_def no_values_def)
  then show ?thesis
    by (simp add: StudentUpdateForm_full_clean_def Let_def)
       (simp add: StudentUpdateForm_clean_def Let_def clean_form_def objects_filter_def
        update_alice_def no_values_def store0_defs)
qed

text \<open>
  Claim C6. For every student update form (in particular every one whose validation
  succeeded), \<^verbatim>\<open>save\<close> never inserts a membership row: the keys of DepartmentStudents and
  its key sequence are as before, whatever the outcome. When \<^verbatim>\<open>save\<close> returns a user,
  the one DepartmentStudents row of that user has been updated in place with the
  submitted department. When the referenced User and its Student row are found but no
  DepartmentStudents row exists for that user, the body of \<^verbatim>\<open>save\<close> stops with
  \<open>DoesNotExist\<close> (\<open>NotFound\<close>) after it has written the User's email and the Student
  profile, and \<^verbatim>\<open>save\<close>, being one atomic transaction, leaves the store unchanged. Any
  failure of \<^verbatim>\<open>save\<close> leaves the store unchanged.
\<close>

theorem C6_student_update_membership:
  "map pk (rows (dept_students (snd (StudentUpdateForm_save self st)))) =
     map pk (rows (dept_students st)) \<and>
   next_pk (dept_students (snd (StudentUpdateForm_save self st))) = next_pk (dept_students st) \<and>
   (\<forall>user. fst (StudentUpdateForm_save self st) = Inr user \<longrightarrow>
      (\<exists>dept \<in> set (rows (dept_students st)).
         ds_user_id (obj dept) = pk user \<and>
         rows (dept_students (snd (StudentUpdateForm_save self st))) =
           map (\<lambda>x. if pk x = pk dept
                     then (pk dept, (obj dept)\<lparr>ds_dept_id := department (cleaned_data self)\<rparr>)
                     else x)
               (rows (dept_students st)))) \<and>
   (\<forall>user student.
      objects_get (\<lambda>r. Some (pk r) = user_id (cleaned_data self)) (users st) = Inr user \<and>
      objects_get (\<lambda>r. s_user (obj r) = pk user) (students st) = Inr student \<and>
      (\<forall>r \<in> set (rows (dept_students st)). ds_user_id (obj r) \<noteq> pk user) \<longrightarrow>
      StudentUpdateForm_save_body self st =
        (Inl DoesNotExist,
         st\<lparr>users :=
              Model_save (pk user, (obj user)\<lparr>u_email := email (cleaned_data self)\<rparr>) (users st),
            students :=
              Model_save
                (pk student,
                 (obj student)\<lparr>s_first_name := first_name (cleaned_data self),
                               s_last_name := last_name (cleaned_data self),
                               s_registry_id := registry_id (cleaned_data self),
                               s_admission_year := admission_year (cleaned_data self)\<rparr>)
                (students st)\<rparr>) \<and>
      StudentUpdateForm_save self st = (Inl DoesNotExist, st)) \<and>
   (\<forall>e. fst (StudentUpdateForm_save self st) = Inl e \<longrightarrow>
      snd (StudentUpdateForm_save self st) = st)"
proof -
  let ?cd = "cleaned_data self"
  have keys: "map pk (rows (dept_students (snd (StudentUpdateForm_save self st)))) =
     map pk (rows (dept_students st)) \<and>
   next_pk (dept_students (snd (StudentUpdateForm_save self st))) = next_pk (dept_students st)"
    by (simp add: StudentUpdateForm_save_eq Model_save_fetched_keys split: sum.splits)
  have ok: "\<exists>dept \<in> set (rows (dept_students st)).
         ds_user_id (obj dept) = pk user \<and>
         rows (dept_students (snd (StudentUpdateForm_save self st))) =
           map (\<lambda>x. if pk x = pk dept
                     then (pk dept, (obj dept)\<lparr>ds_dept_id := department ?cd\<rparr>)
                     else x)
               (rows (dept_students st))"
    if "fst (StudentUpdateForm_save self st) = Inr user" for user
  proof -
    from that obtain u s m where
      u: "objects_get (\<lambda>r. Some (pk r) = user_id ?cd) (users st) = Inr u"
      and s: "objects_get (\<lambda>r. s_user (obj r) = pk u) (students st) = Inr s"
      and m: "objects_get (\<lambda>r. ds_user_id (obj r) = pk u) (dept_students st) = Inr m"
      by (auto simp: StudentUpdateForm_save_eq split: sum.splits)
    with that have pku: "pk user = pk u" by (auto simp: StudentUpdateForm_save_eq)
    have "rows (dept_students (snd (StudentUpdateForm_save self st))) =
           map (\<lambda>x. if pk x = pk m
                     then (pk m, (obj m)\<lparr>ds_dept_id := department ?cd\<rparr>)
                     else x)
               (rows (dept_students st))"
      by (simp add: StudentUpdateForm_save_eq u s m Model_save_fetched [OF m])
    with objects_get_member [OF m] pku show ?thesis by auto
  qed
  have missing: "StudentUpdateForm_save_body self st =
        (Inl DoesNotExist,
         st\<lparr>users :=
              Model_save (pk user, (obj user)\<lparr>u_email := email ?cd\<rparr>) (users st),
            students :=
              Model_save
                (pk student,
                 (obj student)\<lparr>s_first_name := first_name ?cd,
                               s_last_name := last_name ?cd,
                               s_registry_id := registry_id ?cd,
                               s_admission_year := admission_year ?cd\<rparr>)
                (students st)\<rparr>) \<and>
      StudentUpdateForm_save self st = (Inl DoesNotExist, st)"
    if "objects_get (\<lambda>r. Some (pk r) = user_id ?cd) (users st) = Inr user \<and>
      objects_get (\<lambda>r. s_user (obj r) = pk user) (students st) = Inr student \<and>
      (\<forall>r \<in> set (rows (dept_students st)). ds_user_id (obj r) \<noteq> pk user)"
    for user student
  proof -
    from that have m: "objects_get (\<lambda>r. ds_user_id (obj r) = pk user) (dept_students st) =
        Inl DoesNotExist"
      by (intro objects_get_none) auto
    with that show ?thesis
      by (simp add: StudentUpdateForm_save_eq)
         (simp add: StudentUpdateForm_save_body_def db_simps Let_def)
  qed
  have rollback: "snd (StudentUpdateForm_save self st) = st"
    if "fst (StudentUpdateForm_save self st) = Inl e" for e
    using that by (auto simp: StudentUpdateForm_save_eq split: sum.splits)
  from keys ok missing rollback show ?thesis by blast
qed

text \<open>
  In the small store Bob has a Student row and no membership row: his valid update fails
  with \<open>DoesNotExist\<close> and the store is as before, although the body had already written
  his new email. Alice's valid update moves her membership row to department 2.
\<close>

theorem C6_student_update_membership_witness:
  "is_valid (fst (StudentUpdateForm_full_clean env0 update_bob store0)) \<and>
   StudentUpdateForm_save (fst (StudentUpdateForm_full_clean env0 update_bob store0)) store0 =
     (Inl DoesNotExist, store0) \<and>
   fst (StudentUpdateForm_save_body
          (fst (StudentUpdateForm_full_clean env0 update_bob store0)) store0) =
     Inl DoesNotExist \<and>
   user_of (snd (StudentUpdateForm_save_body
          (fst (StudentUpdateForm_full_clean env0 update_bob store0)) store0)) 2 =
     Some (bob\<lparr>u_email := Some ''b2@x.org''\<rparr>) \<and>
   user_of store0 2 = Some bob \<and>
   is_valid (fst (StudentUpdateForm_full_clean env0
                    (update_alice\<lparr>department := Some 2\<rparr>) store0)) \<and>
   rows (dept_students (snd (StudentUpdateForm_save
       (fst (StudentUpdateForm_full_clean env0 (update_alice\<lparr>department := Some 2\<rparr>) store0))
       store0))) =
     [(1, \<lparr>ds_dept_id = Some 2, ds_user_id = 1\<rparr>)]"
proof -
  let ?b = "fst (StudentUpdateForm_full_clean env0 update_bob store0)"
  let ?a = "fst (StudentUpdateForm_full_clean env0 (update_alice\<lparr>department := Some 2\<rparr>) store0)"
  have ub: "objects_get (\<lambda>r. Some (pk r) = user_id (cleaned_data ?b)) (users store0) =
              Inr (2, bob)"
    by (simp only: update_bob_form)
       (simp add: objects_get_def objects_filter_def store0_def update_bob_def no_values_def)
  have sb: "objects_get (\<lambda>r. s_user (obj r) = pk (2::int, bob)) (students store0) =
     Inr (2, \<lparr>s_user = 2, s_registry_id = Some ''R2'', s_first_name = Some ''Bob'',
                 s_last_name = Some ''B'', s_admission_year = Some 2021\<rparr>)"
    by (simp add: objects_get_def objects_filter_def store0_def)
  have mb: "\<forall>r \<in> set (rows (dept_students store0)). ds_user_id (obj r) \<noteq> pk (2::int, bob)"
    by (simp add: store0_def)
  from C6_student_update_membership [of ?b store0] ub sb mb
  have b: "StudentUpdateForm_save_body ?b store0 =
        (Inl DoesNotExist,
         store0\<lparr>users :=
              Model_save (2, bob\<lparr>u_email := email (cleaned_data ?b)\<rparr>) (users store0),
            students :=
              Model_save
                (2,
                 \<lparr>s_user = 2, s_registry_id = registry_id (cleaned_data ?b),
                  s_first_name = first_name (cleaned_data ?b),
                  s_last_name = last_name (cleaned_data ?b),
                  s_admission_year = admission_year (cleaned_data ?b)\<rparr>)
                (students store0)\<rparr>) \<and>
      StudentUpdateForm_save ?b store0 = (Inl DoesNotExist, store0)"
    by fastforce
  have vb: "is_valid ?b" by (simp add: update_bob_form is_valid_def)
  have b1: "user_of (snd (StudentUpdateForm_save_body ?b store0)) 2 =
     Some (bob\<lparr>u_email := Some ''b2@x.org''\<rparr>)"
    apply (simp only: conjunct1 [OF b] snd_conv)
    apply (simp only: update_bob_form)
    apply (simp add: user_of_def Model_save_def store0_def update_bob_def no_values_def)
    done
  have b0: "user_of store0 2 = Some bob" by (simp add: user_of_def store0_def)
  have va: "is_valid ?a" by (simp add: update_alice_form is_valid_def)
  have ok: "fst (StudentUpdateForm_save ?a store0) = Inr (1, alice)"
    by (simp only: StudentUpdateForm_save_eq update_alice_form)
       (simp add: objects_get_def objects_filter_def store0_defs update_alice_def no_values_def)
  from C6_student_update_membership [of ?a store0] ok
  have "\<exists>dept \<in> set (rows (dept_students store0)).
         ds_user_id (obj dept) = pk (1::int, alice) \<and>
         rows (dept_students (snd (StudentUpdateForm_save ?a store0))) =
           map (\<lambda>x. if pk x = pk dept
                     then (pk dept, (obj dept)\<lparr>ds_dept_id := department (cleaned_data ?a)\<rparr>)
                     else x)
               (rows (dept_students store0))"
    by blast
  then have a: "rows (dept_students (snd (StudentUpdateForm_save ?a store0))) =
     [(1, \<lparr>ds_dept_id = Some 2, ds_user_id = 1\<rparr>)]"
    by (simp only: update_alice_form)
       (simp add: store0_def update_alice_def no_values_def)
  from vb b b1 b0 va a show ?thesis by simp
qed

section \<open>Account actions on a user id that does not resolve\<close>

text \<open>
  Claim C7. For every \<^verbatim>\<open>user_id\<close> that resolves to no existing User, \<^verbatim>\<open>accept\<close>,
  \<^verbatim>\<open>activate\<close> and \<^verbatim>\<open>deactivate\<close> fail with \<open>DoesNotExist\<close> (the specification's
  \<open>NotFound\<close>) and leave the store as it was, while \<^verbatim>\<open>delete\<close> raises nothing and
  leaves the store unchanged.
\<close>

theorem C7_unresolved_user_id:
  assumes "\<forall>r \<in> set (rows (users st)). Some (pk r) \<noteq> user_id (cleaned_data self)"
  shows "UserActionForm_accept self st = (Inl DoesNotExist, st) \<and>
         UserActionForm_activate self st = (Inl DoesNotExist, st) \<and>
         UserActionForm_deactivate self st = (Inl DoesNotExist, st) \<and>
         UserActionForm_delete self st = (Inr (), st)"
proof -
  have none:
    "objects_get (\<lambda>r. Some (pk r) = user_id (cleaned_data self)) (users st) = Inl DoesNotExist"
    using assms by (intro objects_get_none) auto
  have nof: "objects_filter (\<lambda>r. Some (pk r) = user_id (cleaned_data self)) (users st) = []"
    using assms by (intro objects_filter_none) auto
  have acc: "UserActionForm_accept self st = (Inl DoesNotExist, st)"
    by (simp add: UserActionForm_accept_def db_simps none)
  have act: "UserActionForm_activate self st = (Inl DoesNotExist, st)"
    by (simp add: UserActionForm_activate_def db_simps none)
  have dea: "UserActionForm_deactivate self st = (Inl DoesNotExist, st)"
    by (simp add: UserActionForm_deactivate_def db_simps none)
  have del: "UserActionForm_delete self st = (Inr (), st)"
    by (simp add: UserActionForm_delete_def db_simps nof queryset_delete_none)
  from acc act dea del show ?thesis by simp
qed

text \<open>In the small store no user has the key 9.\<close>

theorem C7_unresolved_user_id_witness:
  "UserActionForm_accept (action_form 9) store0 = (Inl DoesNotExist, store0) \<and>
   UserActionForm_activate (action_form 9) store0 = (Inl DoesNotExist, store0) \<and>
   UserActionForm_deactivate (action_form 9) store0 = (Inl DoesNotExist, store0) \<and>
   UserActionForm_delete (action_form 9) store0 = (Inr (), store0)"
proof -
  have "\<forall>r \<in> set (rows (users store0)). Some (pk r) \<noteq> user_id (cleaned_data (action_form 9))"
    by (simp add: store0_def action_form_def UserActionForm_full_clean_def
        UserActionForm_clean_fields_def bound_form_def clean_field_def clean_form_def
        IntegerField_clean_def no_values_def)
  from C7_unresolved_user_id [OF this] show ?thesis .
qed

section \<open>Department admin signup\<close>

lemma DeptadminSignupForm_clean_fields_eq:
  "DeptadminSignupForm_clean_fields env self st =
   UserCreationForm_clean_password2
    (clean_field ''password2'' (CharField_clean None (password2 (data self)))
       (\<lambda>v cd. cd\<lparr>password2 := Some v\<rparr>)
    (clean_field ''password1'' (CharField_clean None (password1 (data self)))
       (\<lambda>v cd. cd\<lparr>password1 := Some v\<rparr>)
    (clean_field ''email'' (EmailField_clean env (Some 255) (email (data self)))
       (\<lambda>v cd. cd\<lparr>email := Some v\<rparr>)
    (clean_field ''department'' (DepartmentChoiceField_clean st (department (data self)))
       (\<lambda>v cd. cd\<lparr>department := Some v\<rparr>) self))))"
  by (simp only: DeptadminSignupForm_clean_fields_def Let_def clean_field_simps(1))

lemma DeptadminSignupForm_clean_fields_valid:
  assumes "errors (DeptadminSignupForm_clean_fields env (bound_form d) st) = []"
  shows "\<exists>dep em p1 p2.
     department d = Some dep \<and> email d = Some em \<and>
     password1 d = Some p1 \<and> password2 d = Some p2 \<and>
     DeptadminSignupForm_clean_fields env (bound_form d) st =
       \<lparr>data = d,
        cleaned_data =
          no_values\<lparr>department := Some dep, email := Some em,
            password1 := Some p1, password2 := Some p2\<rparr>,
        errors = [], user_cache = None\<rparr>"
proof -
  let ?chain = "clean_field ''password2'' (CharField_clean None (password2 d))
       (\<lambda>v cd. cd\<lparr>password2 := Some v\<rparr>)
    (clean_field ''password1'' (CharField_clean None (password1 d))
       (\<lambda>v cd. cd\<lparr>password1 := Some v\<rparr>)
    (clean_field ''email'' (EmailField_clean env (Some 255) (email d))
       (\<lambda>v cd. cd\<lparr>email := Some v\<rparr>)
    (clean_field ''department'' (DepartmentChoiceField_clean st (department d))
       (\<lambda>v cd. cd\<lparr>department := Some v\<rparr>) (bound_form d))))"
  have eq: "DeptadminSignupForm_clean_fields env (bound_form d) st =
            UserCreationForm_clean_password2 ?chain"
    by (simp add: DeptadminSignupForm_clean_fields_eq bound_form_def)
  with assms have pw: "UserCreationForm_clean_password2 ?chain = ?chain"
    by (simp add: UserCreationForm_clean_password2_valid)
  with assms eq have "errors ?chain = []" by simp
  then have
    "(\<exists>s. department d = Some s \<and> DepartmentChoiceField_clean st (department d) = Inr s) \<and>
     (\<exists>s. email d = Some s \<and> EmailField_clean env (Some 255) (email d) = Inr s) \<and>
     (\<exists>s. password1 d = Some s \<and> CharField_clean None (password1 d) = Inr s) \<and>
     (\<exists>s. password2 d = Some s \<and> CharField_clean None (password2 d) = Inr s)"
    by (simp only: clean_field_simps append_is_Nil_conv field_clean_valid)
  then obtain dep em p1 p2 where
    v: "department d = Some dep" "email d = Some em"
       "password1 d = Some p1" "password2 d = Some p2"
    and r: "DepartmentChoiceField_clean st (department d) = Inr dep"
       "EmailField_clean env (Some 255) (email d) = Inr em"
       "CharField_clean None (password1 d) = Inr p1"
       "CharField_clean None (password2 d) = Inr p2"
    by blast
  have "?chain = \<lparr>data = d,
        cleaned_data =
          no_values\<lparr>department := Some dep, email := Some em,
            password1 := Some p1, password2 := Some p2\<rparr>,
        errors = [], user_cache = None\<rparr>"
    by (simp add: r clean_field_Inr bound_form_def)
  with eq pw v show ?thesis by simp
qed

lemma DeptadminSignupForm_full_clean_valid:
  assumes "is_valid (fst (DeptadminSignupForm_full_clean env d st))"
  shows "fst (DeptadminSignupForm_full_clean env d st) =
           DeptadminSignupForm_clean_fields env (bound_form d) st \<and>
         errors (DeptadminSignupForm_clean_fields env (bound_form d) st) = []"
proof -
  let ?self = "DeptadminSignupForm_clean_fields env (bound_form d) st"
  have cf: "clean_form (Inr (cleaned_data ?self)) ?self = ?self"
    by (simp add: clean_form_def)
  have full: "fst (DeptadminSignupForm_full_clean env d st) = ModelForm_post_clean ?self st"
    by (simp add: DeptadminSignupForm_full_clean_def Let_def cf)
  with assms have e: "errors (ModelForm_post_clean ?self st) = []"
    by (simp add: is_valid_def)
  then have "ModelForm_post_clean ?self st = ?self"
    by (rule ModelForm_post_clean_valid)
  with full e show ?thesis by simp
qed

lemma signup_frank_valid:
  "fst (DeptadminSignupForm_full_clean env0 signup_frank store0) =
     \<lparr>data = signup_frank, cleaned_data = signup_frank, errors = [], user_cache = None\<rparr>"
proof -
  have "DeptadminSignupForm_clean_fields env0 (bound_form signup_frank) store0 =
     \<lparr>data = signup_frank, cleaned_data = signup_frank, errors = [], user_cache = None\<rparr>"
    by (simp add: DeptadminSignupForm_clean_fields_eq field_defs signup_frank_def env0_def
        store0_def)
  then show ?thesis
    by (simp add: DeptadminSignupForm_full_clean_def Let_def
        ModelForm_post_clean_def clean_form_def objects_filter_def signup_frank_def no_values_def
        store0_defs)
qed

text \<open>
  Claim C8. For every valid deptadmin signup (on a store whose Deptadmin key sequence is
  ahead of its keys), \<^verbatim>\<open>save\<close> returns the created User, which has \<open>is_deptadmin\<close> and
  \<open>is_staff\<close> true; the store it leaves is the old one with that User appended and
  exactly one Deptadmin row appended, owned by the User and holding the submitted
  department; no other table changes, so no DepartmentStudents and no DepartmentTeachers
  row is created.
\<close>

theorem C8_deptadmin_signup:
  assumes "is_valid (fst (DeptadminSignupForm_full_clean env d st))"
    and "table_wf (deptadmins st)"
  shows "\<exists>em dep p1.
     email d = Some em \<and> department d = Some dep \<and> password1 d = Some p1 \<and>
     DeptadminSignupForm_save env (fst (DeptadminSignupForm_full_clean env d st)) st =
       (Inr (next_pk (users st),
             \<lparr>u_email = Some em, u_password = make_password env p1, is_student = False,
              is_teacher = False, is_deptadmin = True, is_staff = True,
              is_accepted = False, is_active = is_active_default env\<rparr>),
        st\<lparr>users :=
             (users st)\<lparr>rows := rows (users st) @
                 [(next_pk (users st),
                   \<lparr>u_email = Some em, u_password = make_password env p1, is_student = False,
                    is_teacher = False, is_deptadmin = True, is_staff = True,
                    is_accepted = False, is_active = is_active_default env\<rparr>)],
               next_pk := next_pk (users st) + 1\<rparr>,
           deptadmins :=
             (deptadmins st)\<lparr>rows := rows (deptadmins st) @
                 [(next_pk (deptadmins st),
                   \<lparr>da_user = next_pk (users st), da_department = Some dep\<rparr>)],
               next_pk := next_pk (deptadmins st) + 1\<rparr>\<rparr>) \<and>
     dept_students (snd (DeptadminSignupForm_save env
        (fst (DeptadminSignupForm_full_clean env d st)) st)) = dept_students st \<and>
     dept_teachers (snd (DeptadminSignupForm_save env
        (fst (DeptadminSignupForm_full_clean env d st)) st)) = dept_teachers st"
proof -
  let ?self = "DeptadminSignupForm_clean_fields env (bound_form d) st"
  from DeptadminSignupForm_full_clean_valid [OF assms(1)]
  have full: "fst (DeptadminSignupForm_full_clean env d st) = ?self" and es: "errors ?self = []"
    by simp_all
  from DeptadminSignupForm_clean_fields_valid [OF es]
  obtain dep em p1 p2 where
    v: "department d = Some dep" "email d = Some em"
       "password1 d = Some p1" "password2 d = Some p2"
    and self: "?self = \<lparr>data = d,
        cleaned_data =
          no_values\<lparr>department := Some dep, email := Some em,
            password1 := Some p1, password2 := Some p2\<rparr>,
        errors = [], user_cache = None\<rparr>"
    by blast
  have save: "DeptadminSignupForm_save env ?self st =
       (Inr (next_pk (users st),
             \<lparr>u_email = Some em, u_password = make_password env p1, is_student = False,
              is_teacher = False, is_deptadmin = True, is_staff = True,
              is_accepted = False, is_active = is_active_default env\<rparr>),
        st\<lparr>users :=
             (users st)\<lparr>rows := rows (users st) @
                 [(next_pk (users st),
                   \<lparr>u_email = Some em, u_password = make_password env p1, is_student = False,
                    is_teacher = False, is_deptadmin = True, is_staff = True,
                    is_accepted = False, is_active = is_active_default env\<rparr>)],
               next_pk := next_pk (users st) + 1\<rparr>,
           deptadmins :=
             (deptadmins st)\<lparr>rows := rows (deptadmins st) @
                 [(next_pk (deptadmins st),
                   \<lparr>da_user = next_pk (users st), da_department = Some dep\<rparr>)],
               next_pk := next_pk (deptadmins st) + 1\<rparr>\<rparr>)"
    by (simp add: DeptadminSignupForm_save_eq self UserCreationForm_save_commit_False_def User_init_def
        Model_save_created [OF assms(2)] no_values_def)
       (simp add: objects_create_def)
  from save full v show ?thesis by simp
qed

text \<open>Frank signs up as admin of department 2 in the small store.\<close>

theorem C8_deptadmin_signup_witness:
  "is_valid (fst (DeptadminSignupForm_full_clean env0 signup_frank store0)) \<and>
   fst (DeptadminSignupForm_save env0
          (fst (DeptadminSignupForm_full_clean env0 signup_frank store0)) store0) =
     Inr (5, \<lparr>u_email = Some ''f@x.org'', u_password = ''h$pw6'', is_student = False,
              is_teacher = False, is_deptadmin = True, is_staff = True,
              is_accepted = False, is_active = True\<rparr>) \<and>
   rows (deptadmins (snd (DeptadminSignupForm_save env0
           (fst (DeptadminSignupForm_full_clean env0 signup_frank store0)) store0))) =
     rows (deptadmins store0) @ [(2, \<lparr>da_user = 5, da_department = Some 2\<rparr>)] \<and>
   dept_students (snd (DeptadminSignupForm_save env0
           (fst (DeptadminSignupForm_full_clean env0 signup_frank store0)) store0)) =
     dept_students store0 \<and>
   dept_teachers (snd (DeptadminSignupForm_save env0
           (fst (DeptadminSignupForm_full_clean env0 signup_frank store0)) store0)) =
     dept_teachers store0"
proof -
  have valid: "is_valid (fst (DeptadminSignupForm_full_clean env0 signup_frank store0))"
    by (simp add: signup_frank_valid is_valid_def)
  have wf: "table_wf (deptadmins store0)"
    by (simp add: table_wf_def store0_def)
  from C8_deptadmin_signup [OF valid wf] valid show ?thesis
    by (simp add: signup_frank_def no_values_def env0_def) (simp add: store0_def)
qed

section \<open>The table of users under the operations\<close>

lemma map_of_single:
  assumes "filter (\<lambda>x. pk x = k) xs = [r]"
  shows "map_of xs k = Some (obj r)"
  using assms
proof (induction xs)
  case Nil
  then show ?case by simp
next
  case (Cons a xs)
  show ?case
  proof (cases "pk a = k")
    case True
    with Cons.prems have "a = r" by simp
    with True show ?thesis by (cases a) auto
  next
    case False
    with Cons show ?thesis by (cases a) auto
  qed
qed

lemma map_of_replace:
  "map_of (map (\<lambda>x. if pk x = a then (a, v) else x) xs) k =
     (if k = a \<and> a \<in> pk ` set xs then Some v else map_of xs k)"
proof (induction xs)
  case Nil
  then show ?case by simp
next
  case (Cons x xs)
  then show ?case by (cases x) (force split: if_splits)
qed

lemma map_of_filter_keys:
  "map_of (filter (\<lambda>r. pk r \<notin> D) xs) k = (if k \<in> D then None else map_of xs k)"
  by (induction xs) auto

lemma user_of_create:
  assumes "users st' = snd (objects_create v (users st))"
  shows "user_of st' k =
     (case user_of st k of Some u \<Rightarrow> Some u
      | None \<Rightarrow> if k = next_pk (users st) then Some v else None)"
  using assms
  by (auto simp: user_of_def objects_create_def map_add_def split: option.splits)

lemma user_of_delete:
  assumes "users st' = queryset_delete (\<lambda>r. pk r \<in> D) (users st)"
  shows "user_of st' k = (if k \<in> D then None else user_of st k)"
  using assms by (simp add: user_of_def queryset_delete_def map_of_filter_keys)

lemma user_of_save:
  assumes "filter (\<lambda>x. pk x = pk r) (rows (users st)) = [r]"
    and "users st' = Model_save (pk r, v) (users st)"
  shows "user_of st' k = (if k = pk r then Some v else user_of st k)"
    and "user_of st (pk r) = Some (obj r)"
proof -
  have "r \<in> set (filter (\<lambda>x. pk x = pk r) (rows (users st)))" using assms(1) by simp
  then have mem: "pk r \<in> pk ` set (rows (users st))" by auto
  then have "rows (users st') = map (\<lambda>x. if pk x = pk r then (pk r, v) else x) (rows (users st))"
    using assms(2) by (simp add: Model_save_def)
  with mem show "user_of st' k = (if k = pk r then Some v else user_of st k)"
    by (simp add: user_of_def map_of_replace)
  show "user_of st (pk r) = Some (obj r)"
    using assms(1) by (simp add: user_of_def map_of_single)
qed

lemma objects_get_by_id:
  assumes "objects_get (\<lambda>x. Some (pk x) = uid) t = Inr r"
  shows "filter (\<lambda>x. pk x = pk r) (rows t) = [r]"
proof -
  from objects_get_member [OF assms] have "uid = Some (pk r)" by simp
  with objects_get_Inr [OF assms] show ?thesis by (simp add: objects_filter_def)
qed

lemma StudentUpdateForm_full_clean_store:
  "snd (StudentUpdateForm_full_clean env d st) = st"
  by (simp add: StudentUpdateForm_full_clean_def StudentUpdateForm_clean_def Let_def)

lemma TeacherSignupForm_full_clean_store:
  "snd (TeacherSignupForm_full_clean env d st) = st"
  by (simp add: TeacherSignupForm_full_clean_def Let_def)

lemma TeacherUpdateForm_full_clean_store:
  "snd (TeacherUpdateForm_full_clean env d st) = st"
  by (simp add: TeacherUpdateForm_full_clean_def TeacherUpdateForm_clean_def Let_def)

lemma DeptadminSignupForm_full_clean_store:
  "snd (DeptadminSignupForm_full_clean env d st) = st"
  by (simp add: DeptadminSignupForm_full_clean_def Let_def)

lemma DeptadminUpdateForm_full_clean_store:
  "snd (DeptadminUpdateForm_full_clean env d st) = st"
  by (simp add: DeptadminUpdateForm_full_clean_def DeptadminUpdateForm_clean_def Let_def)

lemmas full_clean_store = SigninForm_full_clean_store StudentSignupForm_full_clean_store
  StudentUpdateForm_full_clean_store TeacherSignupForm_full_clean_store
  TeacherUpdateForm_full_clean_store DeptadminSignupForm_full_clean_store
  DeptadminUpdateForm_full_clean_store

lemma users_step_same: "users_step op t t"
  by (simp add: users_step_def)

lemma users_step_save:
  assumes "objects_get (\<lambda>x. Some (pk x) = uid) t = Inr r"
    and "role_flags v = role_flags (obj r)"
    and "is_accepted v = is_accepted (obj r) \<or> is_accepted v \<and> accepts (pk r) op"
  shows "users_step op t (Model_save (pk r, v) t)"
  unfolding users_step_def
  using objects_get_by_id [OF assms(1)] assms(2,3) by blast

lemma users_step_create:
  assumes "\<not> is_accepted v"
  shows "users_step op t (snd (objects_create v t))"
  unfolding users_step_def using assms by blast

lemma users_step_delete: "users_step op t (queryset_delete (\<lambda>r. pk r \<in> D) t)"
  unfolding users_step_def by blast

lemma run_users_step: "users_step op (users st) (users (run env op st))"
proof (cases op)
  case (Accept self)
  show ?thesis
  proof (cases "objects_get (\<lambda>r. Some (pk r) = user_id (cleaned_data self)) (users st)")
    case (Inl e)
    with Accept show ?thesis
      by (simp add: UserActionForm_accept_def db_simps users_step_same)
  next
    case (Inr r)
    from objects_get_member [OF Inr] have "user_id (cleaned_data self) = Some (pk r)" by simp
    with Accept have "users_step op (users st)
        (Model_save (pk r, (obj r)\<lparr>is_accepted := True\<rparr>) (users st))"
      by (intro users_step_save [OF Inr]) (simp_all add: role_flags_def)
    with Accept Inr show ?thesis by (simp add: UserActionForm_accept_def db_simps)
  qed
next
  case (Delete self)
  then show ?thesis
    by (simp add: UserActionForm_delete_def db_simps Let_def users_step_delete)
next
  case (Activate self)
  show ?thesis
  proof (cases "objects_get (\<lambda>r. Some (pk r) = user_id (cleaned_data self)) (users st)")
    case (Inl e)
    with Activate show ?thesis
      by (simp add: UserActionForm_activate_def db_simps users_step_same)
  next
    case (Inr r)
    have "users_step op (users st)
        (Model_save (pk r, (obj r)\<lparr>is_active := True\<rparr>) (users st))"
      by (intro users_step_save [OF Inr]) (simp_all add: role_flags_def)
    with Activate Inr show ?thesis by (simp add: UserActionForm_activate_def db_simps)
  qed
next
  case (Deactivate self)
  show ?thesis
  proof (cases "objects_get (\<lambda>r. Some (pk r) = user_id (cleaned_data self)) (users st)")
    case (Inl e)
    with Deactivate show ?thesis
      by (simp add: UserActionForm_deactivate_def db_simps users_step_same)
  next
    case (Inr r)
    have "users_step op (users st)
        (Model_save (pk r, (obj r)\<lparr>is_active := False\<rparr>) (users st))"
      by (intro users_step_save [OF Inr]) (simp_all add: role_flags_def)
    with Deactivate Inr show ?thesis by (simp add: UserActionForm_deactivate_def db_simps)
  qed
next
  case (StudentSignup_save self)
  then show ?thesis
    by (auto simp: StudentSignupForm_save_eq UserCreationForm_save_commit_False_def User_init_def
        users_step_same intro!: users_step_create split: sum.splits option.splits if_splits)
next
  case (TeacherSignup_save self)
  then show ?thesis
    by (auto simp: TeacherSignupForm_save_eq UserCreationForm_save_commit_False_def User_init_def
        users_step_same intro!: users_step_create split: sum.splits option.splits if_splits)
next
  case (DeptadminSignup_save self)
  then show ?thesis
    by (auto simp: DeptadminSignupForm_save_eq UserCreationForm_save_commit_False_def User_init_def
        users_step_same intro!: users_step_create split: sum.splits option.splits if_splits)
next
  case (StudentUpdate_save self)
  show ?thesis
  proof (cases "objects_get (\<lambda>r. Some (pk r) = user_id (cleaned_data self)) (users st)")
    case (Inl e)
    with StudentUpdate_save show ?thesis
      by (simp add: StudentUpdateForm_save_eq users_step_same)
  next
    case (Inr r)
    have "users_step op (users st)
        (Model_save (pk r, (obj r)\<lparr>u_email := email (cleaned_data self)\<rparr>) (users st))"
      by (intro users_step_save [OF Inr]) (simp_all add: role_flags_def)
    with StudentUpdate_save Inr show ?thesis
      by (simp add: StudentUpdateForm_save_eq users_step_same split: sum.splits)
  qed
next
  case (TeacherUpdate_save self)
  show ?thesis
  proof (cases "objects_get (\<lambda>r. Some (pk r) = user_id (cleaned_data self)) (users st)")
    case (Inl e)
    with TeacherUpdate_save show ?thesis
      by (simp add: TeacherUpdateForm_save_eq users_step_same)
  next
    case (Inr r)
    have "users_step op (users st)
        (Model_save (pk r, (obj r)\<lparr>u_email := email (cleaned_data self)\<rparr>) (users st))"
      by (intro users_step_save [OF Inr]) (simp_all add: role_flags_def)
    with TeacherUpdate_save Inr show ?thesis
      by (simp add: TeacherUpdateForm_save_eq users_step_same split: sum.splits)
  qed
next
  case (DeptadminUpdate_save self)
  show ?thesis
  proof (cases "objects_get (\<lambda>r. Some (pk r) = user_id (cleaned_data self)) (users st)")
    case (Inl e)
    with DeptadminUpdate_save show ?thesis
      by (simp add: DeptadminUpdateForm_save_eq users_step_same)
  next
    case (Inr r)
    have "users_step op (users st)
        (Model_save (pk r, (obj r)\<lparr>u_email := email (cleaned_data self)\<rparr>) (users st))"
      by (intro users_step_save [OF Inr]) (simp_all add: role_flags_def)
    with DeptadminUpdate_save Inr show ?thesis
      by (simp add: DeptadminUpdateForm_save_eq users_step_same split: sum.splits)
  qed
qed (simp_all add: full_clean_store users_step_same)

text \<open>
  What one operation does to the user under a key: a user that is there before and
  after keeps its role flags, and keeps its \<open>is_accepted\<close> flag unless the operation is
  \<^verbatim>\<open>accept\<close> on that key, which sets it; a user that appears is not accepted.
\<close>

lemma run_user_of:
  assumes "user_of (run env op st) k = Some u'"
  shows "(\<exists>u. user_of st k = Some u \<and> role_flags u' = role_flags u \<and>
            (is_accepted u' = is_accepted u \<or> is_accepted u' \<and> accepts k op)) \<or>
         (user_of st k = None \<and> \<not> is_accepted u')"
proof -
  consider
    (same) "users (run env op st) = users st"
  | (save) r v where "filter (\<lambda>x. pk x = pk r) (rows (users st)) = [r]"
      "users (run env op st) = Model_save (pk r, v) (users st)"
      "role_flags v = role_flags (obj r)"
      "is_accepted v = is_accepted (obj r) \<or> is_accepted v \<and> accepts (pk r) op"
  | (create) v where "users (run env op st) = snd (objects_create v (users st))"
      "\<not> is_accepted v"
  | (delete) D where "users (run env op st) = queryset_delete (\<lambda>r. pk r \<in> D) (users st)"
    using run_users_step [of op st env] unfolding users_step_def by blast
  then show ?thesis
  proof cases
    case same
    with assms show ?thesis by (simp add: user_of_def)
  next
    case save
    from user_of_save [OF save(1,2)] assms save(3,4) show ?thesis
      by (auto split: if_splits)
  next
    case create
    from user_of_create [OF create(1), of k] assms create(2) show ?thesis
      by (auto split: option.splits if_splits)
  next
    case delete
    from user_of_delete [OF delete, of k] assms show ?thesis
      by (auto split: if_splits)
  qed
qed

section \<open>Concrete runs on the small store\<close>

lemma TeacherUpdateForm_clean_fields_eq:
  "TeacherUpdateForm_clean_fields env self st =
    clean_field ''email'' (EmailField_clean env (Some 254) (email (data self)))
       (\<lambda>v cd. cd\<lparr>email := Some v\<rparr>)
    (clean_field ''rank'' (ChoiceField_clean (TeacherRanks_choices env) (rank (data self)))
       (\<lambda>v cd. cd\<lparr>rank := Some v\<rparr>)
    (clean_field ''last_name'' (CharField_clean (Some 200) (last_name (data self)))
       (\<lambda>v cd. cd\<lparr>last_name := Some v\<rparr>)
    (clean_field ''first_name'' (CharField_clean (Some 200) (first_name (data self)))
       (\<lambda>v cd. cd\<lparr>first_name := Some v\<rparr>)
    (clean_field ''department'' (DepartmentChoiceField_clean st (department (data self)))
       (\<lambda>v cd. cd\<lparr>department := Some v\<rparr>)
    (clean_field ''user_id'' (IntegerField_clean None None (user_id (data self)))
       (\<lambda>v cd. cd\<lparr>user_id := Some v\<rparr>) self)))))"
  by (simp only: TeacherUpdateForm_clean_fields_def Let_def clean_field_simps(1))

lemma DeptadminUpdateForm_clean_fields_eq:
  "DeptadminUpdateForm_clean_fields env self st =
    clean_field ''email'' (EmailField_clean env (Some 254) (email (data self)))
       (\<lambda>v cd. cd\<lparr>email := Some v\<rparr>)
    (clean_field ''department'' (DepartmentChoiceField_clean st (department (data self)))
       (\<lambda>v cd. cd\<lparr>department := Some v\<rparr>)
    (clean_field ''user_id'' (IntegerField_clean None None (user_id (data self)))
       (\<lambda>v cd. cd\<lparr>user_id := Some v\<rparr>) self))"
  by (simp only: DeptadminUpdateForm_clean_fields_def Let_def clean_field_simps(1))

lemma update_carol_form:
  "fst (TeacherUpdateForm_full_clean env0 update_carol store0) =
     \<lparr>data = update_carol, cleaned_data = update_carol, errors = [], user_cache = None\<rparr>"
proof -
  have "TeacherUpdateForm_clean_fields env0 (bound_form update_carol) store0 =
     \<lparr>data = update_carol, cleaned_data = update_carol, errors = [], user_cache = None\<rparr>"
    by (simp add: TeacherUpdateForm_clean_fields_eq field_defs update_carol_def env0_def
        store0_def)
  then show ?thesis
    by (simp add: TeacherUpdateForm_full_clean_def Let_def)
       (simp add: TeacherUpdateForm_clean_def Let_def clean_form_def objects_filter_def
        update_carol_def no_values_def store0_defs)
qed

lemma update_dave_form:
  "fst (DeptadminUpdateForm_full_clean env0 update_dave store0) =
     \<lparr>data = update_dave, cleaned_data = update_dave, errors = [], user_cache = None\<rparr>"
proof -
  have "DeptadminUpdateForm_clean_fields env0 (bound_form update_dave) store0 =
     \<lparr>data = update_dave, cleaned_data = update_dave, errors = [], user_cache = None\<rparr>"
    by (simp add: DeptadminUpdateForm_clean_fields_eq field_defs update_dave_def env0_def
        store0_def)
  then show ?thesis
    by (simp add: DeptadminUpdateForm_full_clean_def Let_def)
       (simp add: DeptadminUpdateForm_clean_def Let_def clean_form_def objects_filter_def
        update_dave_def no_values_def store0_defs)
qed

lemma action_form_cleaned: "cleaned_data (action_form k) = no_values\<lparr>user_id := Some k\<rparr>"
  by (simp add: action_form_def UserActionForm_full_clean_def UserActionForm_clean_fields_def
      bound_form_def clean_field_def clean_form_def IntegerField_clean_def Let_def)

lemma store0_role_flags:
  "role_flags_of store0 =
     [(1, True, False, False, False), (2, True, False, False, False),
      (3, False, True, False, False), (4, False, False, True, True)]"
  by (simp add: role_flags_of_def role_flags_def store0_defs)

lemma update_alice_saved:
  "fst (StudentUpdateForm_save
          (fst (StudentUpdateForm_full_clean env0 (update_alice\<lparr>department := Some 2\<rparr>) store0))
          store0) = Inr (1, alice)"
  by (simp only: StudentUpdateForm_save_eq update_alice_form)
     (simp add: objects_get_def objects_filter_def store0_defs update_alice_def no_values_def)

lemma update_carol_saved:
  "fst (TeacherUpdateForm_save (fst (TeacherUpdateForm_full_clean env0 update_carol store0))
          store0) = Inr (3, carol\<lparr>u_email := Some ''c2@x.org''\<rparr>)"
  by (simp only: TeacherUpdateForm_save_eq update_carol_form)
     (simp add: objects_get_def objects_filter_def store0_defs update_carol_def no_values_def)

lemma update_dave_saved:
  "fst (DeptadminUpdateForm_save (fst (DeptadminUpdateForm_full_clean env0 update_dave store0))
          store0) = Inr (4, dave\<lparr>u_email := Some ''d2@x.org''\<rparr>)"
  by (simp only: DeptadminUpdateForm_save_eq update_dave_form)
     (simp add: objects_get_def objects_filter_def store0_defs update_dave_def no_values_def)

lemma accept_bob:
  "user_of (run env0 (Accept (action_form 2)) store0) 2 = Some (bob\<lparr>is_accepted := True\<rparr>)"
  by (simp add: UserActionForm_accept_def db_simps action_form_cleaned objects_get_def
      objects_filter_def no_values_def Model_save_def user_of_def store0_def)

section \<open>Role flags\<close>

lemma role_flags_save:
  assumes "objects_get (\<lambda>x. Some (pk x) = uid) t = Inr r"
    and "role_flags v = role_flags (obj r)"
  shows "map (\<lambda>x. (pk x, role_flags (obj x))) (rows (Model_save (pk r, v) t)) =
         map (\<lambda>x. (pk x, role_flags (obj x))) (rows t)"
proof -
  have one: "filter (\<lambda>x. pk x = pk r) (rows t) = [r]"
    by (rule objects_get_by_id [OF assms(1)])
  have "x = r" if "x \<in> set (rows t)" "pk x = pk r" for x
  proof -
    from that have "x \<in> set (filter (\<lambda>x. pk x = pk r) (rows t))" by simp
    with one show ?thesis by simp
  qed
  with assms(2) show ?thesis
    by (auto simp: Model_save_fetched [OF assms(1)])
qed

text \<open>
  Claim C9. A student, teacher or deptadmin update leaves the role flags (\<open>is_student\<close>,
  \<open>is_teacher\<close>, \<open>is_deptadmin\<close>, \<open>is_staff\<close>) of every stored user as they were,
  whether it succeeds or fails; and no operation of the module changes a role flag of
  a user that is stored before and after it.
\<close>

theorem C9_role_flags_unchanged:
  "role_flags_of (snd (StudentUpdateForm_save self st)) = role_flags_of st \<and>
   role_flags_of (snd (TeacherUpdateForm_save self st)) = role_flags_of st \<and>
   role_flags_of (snd (DeptadminUpdateForm_save self st)) = role_flags_of st \<and>
   (\<forall>u u'. user_of st k = Some u \<and> user_of (run env op st) k = Some u' \<longrightarrow>
      role_flags u' = role_flags u)"
proof -
  have flags: "map (\<lambda>x. (pk x, role_flags (obj x)))
          (rows (Model_save (pk r, (obj r)\<lparr>u_email := email (cleaned_data self)\<rparr>) (users st))) =
        map (\<lambda>x. (pk x, role_flags (obj x))) (rows (users st))"
    if "objects_get (\<lambda>r. Some (pk r) = user_id (cleaned_data self)) (users st) = Inr r" for r
    using that by (rule role_flags_save) (simp add: role_flags_def)
  have 1: "role_flags_of (snd (StudentUpdateForm_save self st)) = role_flags_of st"
  proof (cases "objects_get (\<lambda>r. Some (pk r) = user_id (cleaned_data self)) (users st)")
    case (Inl e)
    then show ?thesis by (simp add: StudentUpdateForm_save_eq)
  next
    case (Inr r)
    with flags [OF Inr] show ?thesis
      by (simp add: StudentUpdateForm_save_eq role_flags_of_def split: sum.splits)
  qed
  have 2: "role_flags_of (snd (TeacherUpdateForm_save self st)) = role_flags_of st"
  proof (cases "objects_get (\<lambda>r. Some (pk r) = user_id (cleaned_data self)) (users st)")
    case (Inl e)
    then show ?thesis by (simp add: TeacherUpdateForm_save_eq)
  next
    case (Inr r)
    with flags [OF Inr] show ?thesis
      by (simp add: TeacherUpdateForm_save_eq role_flags_of_def split: sum.splits)
  qed
  have 3: "role_flags_of (snd (DeptadminUpdateForm_save self st)) = role_flags_of st"
  proof (cases "objects_get (\<lambda>r. Some (pk r) = user_id (cleaned_data self)) (users st)")
    case (Inl e)
    then show ?thesis by (simp add: DeptadminUpdateForm_save_eq)
  next
    case (Inr r)
    with flags [OF Inr] show ?thesis
      by (simp add: DeptadminUpdateForm_save_eq role_flags_of_def split: sum.splits)
  qed
  have 4: "\<forall>u u'. user_of st k = Some u \<and> user_of (run env op st) k = Some u' \<longrightarrow>
      role_flags u' = role_flags u"
    using run_user_of [of env op st k] by auto
  from 1 2 3 4 show ?thesis by simp
qed

text \<open>
  In the small store the updates of Alice, Carol and Dave succeed and leave every role
  flag as it was; accepting Bob changes his \<open>is_accepted\<close> flag and no role flag.
\<close>

theorem C9_role_flags_unchanged_witness:
  "fst (StudentUpdateForm_save
          (fst (StudentUpdateForm_full_clean env0 (update_alice\<lparr>department := Some 2\<rparr>) store0))
          store0) = Inr (1, alice) \<and>
   role_flags_of (snd (StudentUpdateForm_save
          (fst (StudentUpdateForm_full_clean env0 (update_alice\<lparr>department := Some 2\<rparr>) store0))
          store0)) =
     [(1, True, False, False, False), (2, True, False, False, False),
      (3, False, True, False, False), (4, False, False, True, True)] \<and>
   fst (TeacherUpdateForm_save (fst (TeacherUpdateForm_full_clean env0 update_carol store0))
          store0) = Inr (3, carol\<lparr>u_email := Some ''c2@x.org''\<rparr>) \<and>
   role_flags_of (snd (TeacherUpdateForm_save
          (fst (TeacherUpdateForm_full_clean env0 update_carol store0)) store0)) =
     [(1, True, False, False, False), (2, True, False, False, False),
      (3, False, True, False, False), (4, False, False, True, True)] \<and>
   fst (DeptadminUpdateForm_save (fst (DeptadminUpdateForm_full_clean env0 update_dave store0))
          store0) = Inr (4, dave\<lparr>u_email := Some ''d2@x.org''\<rparr>) \<and>
   role_flags_of (snd (DeptadminUpdateForm_save
          (fst (DeptadminUpdateForm_full_clean env0 update_dave store0)) store0)) =
     [(1, True, False, False, False), (2, True, False, False, False),
      (3, False, True, False, False), (4, False, False, True, True)] \<and>
   user_of store0 2 = Some bob \<and>
   user_of (run env0 (Accept (action_form 2)) store0) 2 = Some (bob\<lparr>is_accepted := True\<rparr>) \<and>
   role_flags (bob\<lparr>is_accepted := True\<rparr>) = role_flags bob"
proof -
  have b: "user_of store0 2 = Some bob" by (simp add: user_of_def store0_def)
  note a = C9_role_flags_unchanged
    [of "fst (StudentUpdateForm_full_clean env0 (update_alice\<lparr>department := Some 2\<rparr>) store0)"
      store0 2 env0 "Accept (action_form 2)"]
  note c = C9_role_flags_unchanged
    [of "fst (TeacherUpdateForm_full_clean env0 update_carol store0)"
      store0 2 env0 "Accept (action_form 2)"]
  note d = C9_role_flags_unchanged
    [of "fst (DeptadminUpdateForm_full_clean env0 update_dave store0)"
      store0 2 env0 "Accept (action_form 2)"]
  from a have "role_flags (bob\<lparr>is_accepted := True\<rparr>) = role_flags bob"
    using b accept_bob by blast
  with a c d b accept_bob update_alice_saved update_carol_saved update_dave_saved
  show ?thesis by (simp add: store0_role_flags)
qed

section \<open>The acceptance flag\<close>

lemma accepted_step:
  assumes "accepted (run env op st) k" and "\<not> accepted st k"
  shows "accepts k op"
proof -
  from assms(1) obtain u' where u': "user_of (run env op st) k = Some u'" "is_accepted u'"
    by (auto simp: accepted_def split: option.splits)
  from run_user_of [OF u'(1)] u'(2) assms(2) show ?thesis
    by (auto simp: accepted_def)
qed

lemma accepted_kept:
  assumes "accepted st k" and "user_of (run env op st) k = Some u'"
  shows "is_accepted u'"
  using run_user_of [OF assms(2)] assms(1) by (auto simp: accepted_def)

lemma not_accepted_fold:
  assumes "\<forall>op \<in> set ops. \<not> accepts k op" and "\<not> accepted st k"
  shows "\<not> accepted (fold (run env) ops st) k"
  using assms
proof (induction ops arbitrary: st)
  case Nil
  then show ?case by simp
next
  case (Cons op ops)
  from Cons.prems have "\<not> accepted (run env op st) k"
    using accepted_step [of env op st k] by auto
  with Cons show ?case by simp
qed

text \<open>
  Claim C10. Across the operations of the module: a user's \<open>is_accepted\<close> flag is true
  after an operation and not before only when the operation is \<^verbatim>\<open>accept\<close> on that
  user; a user that is accepted before an operation and still stored after it is still
  accepted; so over any sequence of operations without an \<^verbatim>\<open>accept\<close> on a user, a flag
  that is false stays false. Every signup creates its User with \<open>is_accepted\<close> false.
\<close>

theorem C10_is_accepted_only_by_accept:
  "(accepted (run env op st) k \<and> \<not> accepted st k \<longrightarrow> accepts k op) \<and>
   (\<forall>u'. accepted st k \<and> user_of (run env op st) k = Some u' \<longrightarrow> is_accepted u') \<and>
   ((\<forall>op \<in> set ops. \<not> accepts k op) \<and> \<not> accepted st k \<longrightarrow>
      \<not> accepted (fold (run env) ops st) k) \<and>
   (\<forall>user. fst (StudentSignupForm_save env self st) = Inr user \<longrightarrow> \<not> is_accepted (obj user)) \<and>
   (\<forall>user. fst (TeacherSignupForm_save env self st) = Inr user \<longrightarrow> \<not> is_accepted (obj user)) \<and>
   (\<forall>user. fst (DeptadminSignupForm_save env self st) = Inr user \<longrightarrow> \<not> is_accepted (obj user))"
proof -
  have 1: "accepted (run env op st) k \<and> \<not> accepted st k \<longrightarrow> accepts k op"
    using accepted_step by blast
  have 2: "\<forall>u'. accepted st k \<and> user_of (run env op st) k = Some u' \<longrightarrow> is_accepted u'"
    using accepted_kept by blast
  have 3: "(\<forall>op \<in> set ops. \<not> accepts k op) \<and> \<not> accepted st k \<longrightarrow>
      \<not> accepted (fold (run env) ops st) k"
    using not_accepted_fold by blast
  have 4: "\<forall>user. fst (StudentSignupForm_save env self st) = Inr user \<longrightarrow>
      \<not> is_accepted (obj user)"
    by (auto simp: StudentSignupForm_save_eq UserCreationForm_save_commit_False_def User_init_def
        split: sum.splits option.splits if_splits)
  have 5: "\<forall>user. fst (TeacherSignupForm_save env self st) = Inr user \<longrightarrow>
      \<not> is_accepted (obj user)"
    by (auto simp: TeacherSignupForm_save_eq UserCreationForm_save_commit_False_def User_init_def
        split: sum.splits option.splits if_splits)
  have 6: "\<forall>user. fst (DeptadminSignupForm_save env self st) = Inr user \<longrightarrow>
      \<not> is_accepted (obj user)"
    by (auto simp: DeptadminSignupForm_save_eq UserCreationForm_save_commit_False_def User_init_def
        split: sum.splits option.splits if_splits)
  from 1 2 3 4 5 6 show ?thesis by blast
qed

text \<open>
  In the small store Bob is not accepted. He stays so over a deactivation and an
  activation of his account, the acceptance of Alice, an update of Alice and the deletion
  of Carol; \<^verbatim>\<open>accept\<close> on Bob accepts him. Eve's signup creates her unaccepted.
\<close>

theorem C10_is_accepted_only_by_accept_witness:
  "\<not> accepted store0 2 \<and>
   \<not> accepted
      (fold (run env0)
         [Deactivate (action_form 2), Accept (action_form 1),
          StudentUpdate_save
            (fst (StudentUpdateForm_full_clean env0 (update_alice\<lparr>department := Some 2\<rparr>) store0)),
          Delete (action_form 3), Activate (action_form 2)]
         store0) 2 \<and>
   accepted (run env0 (Accept (action_form 2)) store0) 2 \<and>
   accepts 2 (Accept (action_form 2)) \<and>
   fst (StudentSignupForm_save env0 (fst (StudentSignupForm_full_clean env0 signup_eve store0))
          store0) =
     Inr (5, \<lparr>u_email = Some ''e@x.org'', u_password = ''h$pw5'', is_student = True,
              is_teacher = False, is_deptadmin = False, is_staff = False,
              is_accepted = False, is_active = True\<rparr>) \<and>
   \<not> is_accepted (obj (5::int, \<lparr>u_email = Some ''e@x.org'', u_password = ''h$pw5'',
              is_student = True, is_teacher = False, is_deptadmin = False, is_staff = False,
              is_accepted = False, is_active = True\<rparr>))"
proof -
  let ?ops = "[Deactivate (action_form 2), Accept (action_form 1),
          StudentUpdate_save
            (fst (StudentUpdateForm_full_clean env0 (update_alice\<lparr>department := Some 2\<rparr>) store0)),
          Delete (action_form 3), Activate (action_form 2)]"
  have n: "\<not> accepted store0 2" by (simp add: accepted_def user_of_def store0_def bob_def)
  have ops: "\<forall>op \<in> set ?ops. \<not> accepts 2 op" by (simp add: action_form_cleaned)
  have acc: "accepted (run env0 (Accept (action_form 2)) store0) 2"
    by (simp only: accepted_def accept_bob) simp
  have eve: "fst (StudentSignupForm_save env0
       (fst (StudentSignupForm_full_clean env0 signup_eve store0)) store0) =
     Inr (5, \<lparr>u_email = Some ''e@x.org'', u_password = ''h$pw5'', is_student = True,
              is_teacher = False, is_deptadmin = False, is_staff = False,
              is_accepted = False, is_active = True\<rparr>)"
    by (simp only: StudentSignupForm_save_eq signup_eve_valid)
       (simp add: UserCreationForm_save_commit_False_def User_init_def signup_eve_def no_values_def env0_def
        store0_def)
  note t = C10_is_accepted_only_by_accept [of env0 "Accept (action_form 2)" store0 2 ?ops
      "fst (StudentSignupForm_full_clean env0 signup_eve store0)"]
  from t ops n have f: "\<not> accepted (fold (run env0) ?ops store0) 2" by blast
  from t acc n have a: "accepts 2 (Accept (action_form 2))" by blast
  from t eve have e: "\<not> is_accepted (obj (5::int, \<lparr>u_email = Some ''e@x.org'',
      u_password = ''h$pw5'', is_student = True, is_teacher = False, is_deptadmin = False,
      is_staff = False, is_accepted = False, is_active = True\<rparr>))"
    by blast
  from n f acc a eve e show ?thesis by blast
qed

end
